theory Spec2Isabelle
  imports Complex_Main "HOL-Library.Sublist"
begin

section \<open>Error taxonomy (packages/types: ErrorCode, ApiErrorResponse)\<close>

text \<open>The enum \<^verbatim>\<open>ErrorCode\<close>, in the order of its declaration.\<close>

datatype ErrorCode =
    VALIDATION_ERROR
  | INVALID_REQUEST
  | UNAUTHORIZED
  | FORBIDDEN
  | NOT_FOUND
  | CONFLICT
  | RATE_LIMIT_EXCEEDED
  | TOKEN_EXPIRED
  | INVALID_TOKEN
  | TOKEN_MISSING
  | BUSINESS_RULE_VIOLATION
  | RESOURCE_NOT_AVAILABLE
  | OPERATION_NOT_ALLOWED
  | INTERNAL_ERROR
  | SERVICE_UNAVAILABLE
  | DATABASE_ERROR
  | EXTERNAL_SERVICE_ERROR

text \<open>
  A value that reaches a \<^verbatim>\<open>catch\<close> clause. The retry code casts whatever was thrown to
  \<^verbatim>\<open>Error | ApiErrorResponse\<close>, and a \<^verbatim>\<open>let lastError\<close> that was never assigned holds
  \<^verbatim>\<open>undefined\<close>, so the model keeps three shapes apart:
  \<^item> \<open>JsError name message\<close>: an instance of \<^verbatim>\<open>Error\<close> with its \<^verbatim>\<open>name\<close> and \<^verbatim>\<open>message\<close>;
  \<^item> \<open>ApiError code message\<close>: the object \<^verbatim>\<open>{success: false, error: {code, message}}\<close>,
    which is what \<^verbatim>\<open>isApiErrorResponse\<close> accepts (it is not an instance of \<^verbatim>\<open>Error\<close>);
  \<^item> \<open>Undefined\<close>: the value \<^verbatim>\<open>undefined\<close>.
\<close>

datatype thrown =
    JsError (name: string) (message: string)
  | ApiError (code: ErrorCode) (apiMessage: string)
  | Undefined

fun isApiErrorResponse :: "thrown \<Rightarrow> bool" where
  "isApiErrorResponse (ApiError c m) = True"
| "isApiErrorResponse (JsError n m) = False"
| "isApiErrorResponse Undefined = False"

text \<open>\<^verbatim>\<open>error instanceof Error\<close>.\<close>

fun instanceofError :: "thrown \<Rightarrow> bool" where
  "instanceofError (JsError n m) = True"
| "instanceofError (ApiError c m) = False"
| "instanceofError Undefined = False"

section \<open>String primitives\<close>

text \<open>
  \<^verbatim>\<open>String.prototype.includes\<close>: the argument occurs as a contiguous run of characters.
\<close>

fun str_includes :: "string \<Rightarrow> string \<Rightarrow> bool" where
  "str_includes [] sub = (sub = [])"
| "str_includes (c # cs) sub = (prefix sub (c # cs) \<or> str_includes cs sub)"

text \<open>
  \<^verbatim>\<open>String.prototype.toLowerCase\<close> on the ASCII range: the letters \<open>A\<close> to \<open>Z\<close>
  (codes 65 to 90) move up by 32, every other character stays.
\<close>

definition toLowerChar :: "char \<Rightarrow> char" where
  "toLowerChar c =
     (if (65::nat) \<le> of_char c \<and> of_char c \<le> (90::nat)
      then char_of (of_char c + (32::nat)) else c)"

definition toLowerCase :: "string \<Rightarrow> string" where
  "toLowerCase s = map toLowerChar s"

section \<open>Error classification (packages/utils/src/error/error-handler.ts)\<close>

datatype Severity = low | medium | high | critical

datatype Category = user | system | network | business

record ErrorClassification =
  isOperational :: bool
  isRetryable :: bool
  severity :: Severity
  category :: Category

text \<open>The \<^verbatim>\<open>switch\<close> over the code; codes without a \<^verbatim>\<open>case\<close> take the \<^verbatim>\<open>default\<close> branch.\<close>

fun classifyApiErrorResponse :: "ErrorCode \<Rightarrow> ErrorClassification" where
  "classifyApiErrorResponse VALIDATION_ERROR =
     \<lparr>isOperational = True, isRetryable = False, severity = low, category = user\<rparr>"
| "classifyApiErrorResponse INVALID_REQUEST =
     \<lparr>isOperational = True, isRetryable = False, severity = low, category = user\<rparr>"
| "classifyApiErrorResponse UNAUTHORIZED =
     \<lparr>isOperational = True, isRetryable = False, severity = medium, category = user\<rparr>"
| "classifyApiErrorResponse TOKEN_EXPIRED =
     \<lparr>isOperational = True, isRetryable = False, severity = medium, category = user\<rparr>"
| "classifyApiErrorResponse INVALID_TOKEN =
     \<lparr>isOperational = True, isRetryable = False, severity = medium, category = user\<rparr>"
| "classifyApiErrorResponse TOKEN_MISSING =
     \<lparr>isOperational = True, isRetryable = False, severity = medium, category = user\<rparr>"
| "classifyApiErrorResponse FORBIDDEN =
     \<lparr>isOperational = True, isRetryable = False, severity = medium, category = business\<rparr>"
| "classifyApiErrorResponse OPERATION_NOT_ALLOWED =
     \<lparr>isOperational = True, isRetryable = False, severity = medium, category = business\<rparr>"
| "classifyApiErrorResponse NOT_FOUND =
     \<lparr>isOperational = True, isRetryable = False, severity = low, category = user\<rparr>"
| "classifyApiErrorResponse RESOURCE_NOT_AVAILABLE =
     \<lparr>isOperational = True, isRetryable = False, severity = low, category = user\<rparr>"
| "classifyApiErrorResponse CONFLICT =
     \<lparr>isOperational = True, isRetryable = False, severity = medium, category = business\<rparr>"
| "classifyApiErrorResponse RATE_LIMIT_EXCEEDED =
     \<lparr>isOperational = True, isRetryable = True, severity = medium, category = system\<rparr>"
| "classifyApiErrorResponse SERVICE_UNAVAILABLE =
     \<lparr>isOperational = True, isRetryable = True, severity = high, category = network\<rparr>"
| "classifyApiErrorResponse EXTERNAL_SERVICE_ERROR =
     \<lparr>isOperational = True, isRetryable = True, severity = high, category = network\<rparr>"
| "classifyApiErrorResponse DATABASE_ERROR =
     \<lparr>isOperational = True, isRetryable = True, severity = high, category = system\<rparr>"
| "classifyApiErrorResponse INTERNAL_ERROR =
     \<lparr>isOperational = False, isRetryable = False, severity = critical, category = system\<rparr>"
| "classifyApiErrorResponse BUSINESS_RULE_VIOLATION =
     \<lparr>isOperational = False, isRetryable = False, severity = critical, category = system\<rparr>"

text \<open>
  Reading a property of \<^verbatim>\<open>undefined\<close> raises a \<^verbatim>\<open>TypeError\<close> in the runtime; this is
  the value raised, with the name of the property that was read.
\<close>

definition propertyReadTypeError :: "string \<Rightarrow> thrown" where
  "propertyReadTypeError prop =
     JsError ''TypeError''
       (''Cannot read properties of undefined (reading '' @ [CHR 0x27] @ prop @ [CHR 0x27]
        @ '')'')"

text \<open>
  \<^verbatim>\<open>classifyJavaScriptError\<close>: the four tests in the order of the source. On a value
  that is no \<^verbatim>\<open>Error\<close> object the first line (\<^verbatim>\<open>error.message.toLowerCase()\<close>) raises:
  a structured response has no \<^verbatim>\<open>message\<close> of its own, so \<^verbatim>\<open>toLowerCase\<close> is read from
  \<^verbatim>\<open>undefined\<close>; on \<^verbatim>\<open>undefined\<close> the read of \<^verbatim>\<open>message\<close> itself fails.
\<close>

fun classifyJavaScriptError :: "thrown \<Rightarrow> thrown + ErrorClassification" where
  "classifyJavaScriptError (JsError nm msg) =
     (let message = toLowerCase msg; name = toLowerCase nm in
      if str_includes message ''network'' \<or> str_includes message ''fetch''
         \<or> str_includes message ''timeout'' \<or> str_includes name ''timeout''
      then Inr \<lparr>isOperational = True, isRetryable = True, severity = medium, category = network\<rparr>
      else if name = ''validationerror'' \<or> str_includes message ''validation''
              \<or> str_includes message ''invalid''
      then Inr \<lparr>isOperational = True, isRetryable = False, severity = low, category = user\<rparr>
      else if name = ''typeerror'' \<or> name = ''referenceerror'' \<or> name = ''syntaxerror''
      then Inr \<lparr>isOperational = False, isRetryable = False, severity = critical, category = system\<rparr>
      else Inr \<lparr>isOperational = True, isRetryable = False, severity = medium, category = system\<rparr>)"
| "classifyJavaScriptError (ApiError c m) = Inl (propertyReadTypeError ''toLowerCase'')"
| "classifyJavaScriptError Undefined = Inl (propertyReadTypeError ''message'')"

text \<open>\<^verbatim>\<open>classifyError\<close>: structured responses by code, everything else as a JavaScript error.\<close>

definition classifyError :: "thrown \<Rightarrow> thrown + ErrorClassification" where
  "classifyError error =
     (if isApiErrorResponse error then Inr (classifyApiErrorResponse (code error))
      else classifyJavaScriptError error)"

section \<open>Numbers\<close>

text \<open>
  A JavaScript number is an IEEE 754 double: a finite value, one of the two infinities,
  or \<^verbatim>\<open>NaN\<close>. A finite double is a real number. The two zeros are not told apart:
  \<open>Finite 0\<close> stands for both, and where the sign of a zero decides a result the model
  follows the positive zero.
\<close>

datatype number = Finite real | PosInfinity | NegInfinity | NaN

text \<open>
  The result of an arithmetic operation on finite operands is the exact result rounded
  to a double. The rounding is a parameter of the model: it maps the exact result to the
  double that is stored, an infinity when the exact result is out of range.
\<close>

type_synonym rounding = "real \<Rightarrow> number"

text \<open>The comparison \<^verbatim>\<open><=\<close> on numbers; it is false as soon as one side is \<^verbatim>\<open>NaN\<close>.\<close>

fun num_le :: "number \<Rightarrow> number \<Rightarrow> bool" where
  "num_le NaN y = False"
| "num_le x NaN = False"
| "num_le NegInfinity y = True"
| "num_le x PosInfinity = True"
| "num_le (Finite x) (Finite y) = (x \<le> y)"
| "num_le (Finite x) NegInfinity = False"
| "num_le PosInfinity (Finite y) = False"
| "num_le PosInfinity NegInfinity = False"

text \<open>
  What the proofs use of round-to-nearest: the result is never \<^verbatim>\<open>NaN\<close>, rounding is
  monotone, 0 and 1 are doubles, and a double rounds to itself.
\<close>

definition ieee_rounding :: "rounding \<Rightarrow> bool" where
  "ieee_rounding fl \<longleftrightarrow>
     (\<forall>x. fl x \<noteq> NaN) \<and> (\<forall>x y. x \<le> y \<longrightarrow> num_le (fl x) (fl y))
     \<and> fl 0 = Finite 0 \<and> fl 1 = Finite 1 \<and> (\<forall>x y. fl x = Finite y \<longrightarrow> fl y = Finite y)"

text \<open>
  Arithmetic without rounding and without overflow. It agrees with double arithmetic
  wherever every operand and every result is a double, as for integers below \<open>2\<^sup>5\<^sup>3\<close>.
\<close>

definition exact_rounding :: rounding where
  "exact_rounding x = Finite x"

text \<open>
  Arithmetic without rounding inside the range of the doubles and with overflow to an
  infinity outside of it.
\<close>

definition double_range_rounding :: rounding where
  "double_range_rounding x =
     (if 2 ^ 1024 \<le> x then PosInfinity
      else if x \<le> - (2 ^ 1024) then NegInfinity else Finite x)"

text \<open>The operator \<^verbatim>\<open>*\<close>: zero times an infinity is \<^verbatim>\<open>NaN\<close>.\<close>

fun js_mul :: "rounding \<Rightarrow> number \<Rightarrow> number \<Rightarrow> number" where
  "js_mul fl NaN y = NaN"
| "js_mul fl x NaN = NaN"
| "js_mul fl (Finite x) (Finite y) = fl (x * y)"
| "js_mul fl (Finite x) PosInfinity =
     (if x = 0 then NaN else if 0 < x then PosInfinity else NegInfinity)"
| "js_mul fl (Finite x) NegInfinity =
     (if x = 0 then NaN else if 0 < x then NegInfinity else PosInfinity)"
| "js_mul fl PosInfinity (Finite y) =
     (if y = 0 then NaN else if 0 < y then PosInfinity else NegInfinity)"
| "js_mul fl NegInfinity (Finite y) =
     (if y = 0 then NaN else if 0 < y then NegInfinity else PosInfinity)"
| "js_mul fl PosInfinity PosInfinity = PosInfinity"
| "js_mul fl PosInfinity NegInfinity = NegInfinity"
| "js_mul fl NegInfinity PosInfinity = NegInfinity"
| "js_mul fl NegInfinity NegInfinity = PosInfinity"

text \<open>The operator \<^verbatim>\<open>+\<close>: infinities of opposite sign add to \<^verbatim>\<open>NaN\<close>.\<close>

fun js_add :: "rounding \<Rightarrow> number \<Rightarrow> number \<Rightarrow> number" where
  "js_add fl NaN y = NaN"
| "js_add fl x NaN = NaN"
| "js_add fl (Finite x) (Finite y) = fl (x + y)"
| "js_add fl (Finite x) PosInfinity = PosInfinity"
| "js_add fl (Finite x) NegInfinity = NegInfinity"
| "js_add fl PosInfinity (Finite y) = PosInfinity"
| "js_add fl NegInfinity (Finite y) = NegInfinity"
| "js_add fl PosInfinity PosInfinity = PosInfinity"
| "js_add fl PosInfinity NegInfinity = NaN"
| "js_add fl NegInfinity PosInfinity = NaN"
| "js_add fl NegInfinity NegInfinity = NegInfinity"

text \<open>\<^verbatim>\<open>Math.min\<close> of two numbers: \<^verbatim>\<open>NaN\<close> when one of them is, the smaller one otherwise.\<close>

fun Math_min :: "number \<Rightarrow> number \<Rightarrow> number" where
  "Math_min NaN y = NaN"
| "Math_min x NaN = NaN"
| "Math_min x y = (if num_le x y then x else y)"

text \<open>
  \<^verbatim>\<open>Math.pow\<close> with an integer exponent: exponent 0 gives 1 whatever the base; a \<^verbatim>\<open>NaN\<close>
  base gives \<^verbatim>\<open>NaN\<close>; an infinite base gives an infinity for a positive exponent and zero
  for a negative one; base zero gives zero for a positive exponent and infinity for a
  negative one; any other base gives the rounded power. The language standard leaves the
  last digit of this power to the implementation; the model takes the exact power,
  rounded.
\<close>

fun Math_pow :: "rounding \<Rightarrow> number \<Rightarrow> int \<Rightarrow> number" where
  "Math_pow fl NaN k = (if k = 0 then Finite 1 else NaN)"
| "Math_pow fl PosInfinity k =
     (if k = 0 then Finite 1 else if 0 < k then PosInfinity else Finite 0)"
| "Math_pow fl NegInfinity k =
     (if k = 0 then Finite 1
      else if 0 < k then (if odd k then NegInfinity else PosInfinity) else Finite 0)"
| "Math_pow fl (Finite b) k =
     (if k = 0 then Finite 1
      else if b = 0 then (if 0 < k then Finite 0 else PosInfinity)
      else fl (power_int b k))"

section \<open>Structured logging (packages/utils/src/error/error-logger.ts)\<close>

datatype LogLevel = ERROR | WARN | INFO | DEBUG

text \<open>
  The values the retry code puts into a log context: numbers, strings and caught errors.
  A context (\<^verbatim>\<open>Record<string, unknown>\<close>) is a map from keys to such values; the object
  spread \<^verbatim>\<open>{...a, ...b}\<close> is \<open>a ++ b\<close>, where the right operand wins.
\<close>

datatype ctx_value = Num number | Str string | Err thrown

type_synonym LogContext = "string \<rightharpoonup> ctx_value"

text \<open>
  A log entry. The field \<^verbatim>\<open>timestamp\<close> is a clock reading and is left out; every other
  field of the interface is kept.
\<close>

record LogEntry =
  level :: LogLevel
  logMessage :: string
  error :: "thrown option"
  classification :: "ErrorClassification option"
  entryContext :: "LogContext option"
  traceId :: "ctx_value option"
  userId :: "ctx_value option"
  sessionId :: "ctx_value option"
  userAgent :: "ctx_value option"
  ip :: "ctx_value option"
  path :: "ctx_value option"

text \<open>What \<^verbatim>\<open>serializeError\<close> builds; \<open>stack\<close> tells whether the stack trace is attached.\<close>

datatype SerializedError =
    SerializedApiErrorResponse ErrorCode string
  | SerializedJavaScriptError string string (stack: bool)

record LogData =
  dataLevel :: LogLevel
  dataMessage :: string
  dataContext :: "LogContext option"
  dataClassification :: "ErrorClassification option"
  dataError :: "SerializedError option"

text \<open>
  The calls made on the console: a log record on the channel of its level, and the
  line \<^verbatim>\<open>sendToMonitoringService\<close> prints with level, message, trace id and user id.
\<close>

datatype console_call =
    Console LogLevel LogData
  | ConsoleMonitoring LogLevel string "ctx_value option" "ctx_value option"

text \<open>The state of an \<^verbatim>\<open>ErrorLogger\<close> instance.\<close>

record ErrorLogger =
  loggerContext :: LogContext
  isDevelopment :: bool

text \<open>
  The world a call runs in:
  \<^item> \<open>env\<close>: the state that the caller's closures (the operation and the callbacks)
    read and write;
  \<^item> \<open>errorLogger\<close>: the global logger instance;
  \<^item> \<open>console\<close>: the console calls made so far, oldest first;
  \<^item> \<open>timers\<close>: the delays that were awaited (\<^verbatim>\<open>setTimeout\<close>), oldest first;
  \<^item> \<open>calls\<close> and \<open>caught\<close>: instrumentation, the number of invocations of the operation
    and the values the \<^verbatim>\<open>catch\<close> clause received, oldest first.
\<close>

record 's world =
  env :: 's
  errorLogger :: ErrorLogger
  console :: "console_call list"
  timers :: "number list"
  calls :: nat
  caught :: "thrown list"

definition getLogLevel :: "ErrorClassification \<Rightarrow> LogLevel" where
  "getLogLevel c =
     (case severity c of critical \<Rightarrow> ERROR | high \<Rightarrow> ERROR | medium \<Rightarrow> WARN | low \<Rightarrow> INFO)"

text \<open>The string value of each enum member, as a template string prints it.\<close>

fun ErrorCode_string :: "ErrorCode \<Rightarrow> string" where
  "ErrorCode_string VALIDATION_ERROR = ''VALIDATION_ERROR''"
| "ErrorCode_string INVALID_REQUEST = ''INVALID_REQUEST''"
| "ErrorCode_string UNAUTHORIZED = ''UNAUTHORIZED''"
| "ErrorCode_string FORBIDDEN = ''FORBIDDEN''"
| "ErrorCode_string NOT_FOUND = ''NOT_FOUND''"
| "ErrorCode_string CONFLICT = ''CONFLICT''"
| "ErrorCode_string RATE_LIMIT_EXCEEDED = ''RATE_LIMIT_EXCEEDED''"
| "ErrorCode_string TOKEN_EXPIRED = ''TOKEN_EXPIRED''"
| "ErrorCode_string INVALID_TOKEN = ''INVALID_TOKEN''"
| "ErrorCode_string TOKEN_MISSING = ''TOKEN_MISSING''"
| "ErrorCode_string BUSINESS_RULE_VIOLATION = ''BUSINESS_RULE_VIOLATION''"
| "ErrorCode_string RESOURCE_NOT_AVAILABLE = ''RESOURCE_NOT_AVAILABLE''"
| "ErrorCode_string OPERATION_NOT_ALLOWED = ''OPERATION_NOT_ALLOWED''"
| "ErrorCode_string INTERNAL_ERROR = ''INTERNAL_ERROR''"
| "ErrorCode_string SERVICE_UNAVAILABLE = ''SERVICE_UNAVAILABLE''"
| "ErrorCode_string DATABASE_ERROR = ''DATABASE_ERROR''"
| "ErrorCode_string EXTERNAL_SERVICE_ERROR = ''EXTERNAL_SERVICE_ERROR''"

fun getDefaultMessage :: "thrown \<Rightarrow> thrown + string" where
  "getDefaultMessage (ApiError c m) = Inr (''API Error: '' @ ErrorCode_string c @ '' - '' @ m)"
| "getDefaultMessage (JsError n m) = Inr (''JavaScript Error: '' @ n @ '' - '' @ m)"
| "getDefaultMessage Undefined = Inl (propertyReadTypeError ''name'')"

fun serializeError :: "bool \<Rightarrow> thrown \<Rightarrow> thrown + SerializedError" where
  "serializeError dev (ApiError c m) = Inr (SerializedApiErrorResponse c m)"
| "serializeError dev (JsError n m) = Inr (SerializedJavaScriptError n m dev)"
| "serializeError dev Undefined = Inl (propertyReadTypeError ''name'')"

text \<open>
  \<^verbatim>\<open>outputLog\<close>: the error is serialised only when the entry holds one that is truthy
  (\<^verbatim>\<open>error && ...\<close>); the record goes to the console channel of its level.
\<close>

definition outputLog :: "LogEntry \<Rightarrow> 's world \<Rightarrow> thrown + 's world" where
  "outputLog logEntry w =
     (case (case error logEntry of
              None \<Rightarrow> Inr None
            | Some Undefined \<Rightarrow> Inr None
            | Some e \<Rightarrow> map_sum id Some (serializeError (isDevelopment (errorLogger w)) e)) of
        Inl ex \<Rightarrow> Inl ex
      | Inr ser \<Rightarrow>
          Inr (w\<lparr>console := console w @
                 [Console (level logEntry)
                    \<lparr>dataLevel = level logEntry, dataMessage = logMessage logEntry,
                     dataContext = entryContext logEntry,
                     dataClassification = classification logEntry,
                     dataError = ser\<rparr>]\<rparr>))"

definition sendToMonitoringService :: "LogEntry \<Rightarrow> 's world \<Rightarrow> 's world" where
  "sendToMonitoringService logEntry w =
     w\<lparr>console := console w @
         [ConsoleMonitoring (level logEntry) (logMessage logEntry)
            (traceId logEntry) (userId logEntry)]\<rparr>"

text \<open>
  An entry without error and classification, as \<^verbatim>\<open>logWarning\<close>, \<^verbatim>\<open>logInfo\<close> and
  \<^verbatim>\<open>logDebug\<close> build it.
\<close>

definition plainEntry :: "ErrorLogger \<Rightarrow> LogLevel \<Rightarrow> string \<Rightarrow> LogContext \<Rightarrow> LogEntry" where
  "plainEntry lg lv msg ctx =
     \<lparr>level = lv, logMessage = msg, error = None, classification = None,
      entryContext = Some (loggerContext lg ++ ctx),
      traceId = loggerContext lg ''traceId'', userId = loggerContext lg ''userId'',
      sessionId = loggerContext lg ''sessionId'', userAgent = loggerContext lg ''userAgent'',
      ip = loggerContext lg ''ip'', path = loggerContext lg ''path''\<rparr>"

text \<open>
  \<^verbatim>\<open>logError\<close>. The body has no \<^verbatim>\<open>try\<close>: a value raised by the classifier, by the default
  message or by the serialiser leaves the method as it is. An absent or empty \<^verbatim>\<open>message\<close>
  is replaced by the default one (\<^verbatim>\<open>message || ...\<close>).
\<close>

definition logError ::
  "thrown \<Rightarrow> string option \<Rightarrow> LogContext \<Rightarrow> 's world \<Rightarrow> thrown + 's world" where
  "logError err msg additionalContext w =
     (case classifyError err of
        Inl ex \<Rightarrow> Inl ex
      | Inr cl \<Rightarrow>
          (case (case msg of
                   None \<Rightarrow> getDefaultMessage err
                 | Some m \<Rightarrow> if m = [] then getDefaultMessage err else Inr m) of
             Inl ex \<Rightarrow> Inl ex
           | Inr m \<Rightarrow>
               (let lg = errorLogger w;
                    logEntry = (plainEntry lg (getLogLevel cl) m additionalContext)
                                 \<lparr>error := Some err, classification := Some cl\<rparr>
                in case outputLog logEntry w of
                     Inl ex \<Rightarrow> Inl ex
                   | Inr w1 \<Rightarrow>
                       if \<not> isDevelopment lg \<and> getLogLevel cl = ERROR
                       then Inr (sendToMonitoringService logEntry w1)
                       else Inr w1)))"

definition logWarning :: "string \<Rightarrow> LogContext \<Rightarrow> 's world \<Rightarrow> thrown + 's world" where
  "logWarning msg ctx w = outputLog (plainEntry (errorLogger w) WARN msg ctx) w"

definition logInfo :: "string \<Rightarrow> LogContext \<Rightarrow> 's world \<Rightarrow> thrown + 's world" where
  "logInfo msg ctx w = outputLog (plainEntry (errorLogger w) INFO msg ctx) w"

definition logDebug :: "string \<Rightarrow> LogContext \<Rightarrow> 's world \<Rightarrow> thrown + 's world" where
  "logDebug msg ctx w =
     (if \<not> isDevelopment (errorLogger w) then Inr w
      else outputLog (plainEntry (errorLogger w) DEBUG msg ctx) w)"

section \<open>Retry with backoff (packages/utils/src/error/retry.ts)\<close>

text \<open>
  \<^verbatim>\<open>RetryOptions\<close>. \<^verbatim>\<open>maxRetries\<close> is a count and is a natural number here; the delays
  and the multiplier are numbers. A callback acts on the caller's state and either
  returns (\<open>Inr ()\<close>) or throws (\<open>Inl\<close>).
\<close>

record 's RetryOptions =
  maxRetries :: nat
  baseDelay :: number
  maxDelay :: number
  backoffMultiplier :: number
  retryableErrors :: "ErrorCode list option"
  onRetry :: "(nat \<Rightarrow> thrown \<Rightarrow> 's \<Rightarrow> (thrown + unit) \<times> 's) option"
  onMaxRetriesReached :: "(thrown \<Rightarrow> 's \<Rightarrow> (thrown + unit) \<times> 's) option"

text \<open>\<^verbatim>\<open>Partial<RetryOptions>\<close>: every field may be absent.\<close>

record 's PartialRetryOptions =
  maxRetries_opt :: "nat option"
  baseDelay_opt :: "number option"
  maxDelay_opt :: "number option"
  backoffMultiplier_opt :: "number option"
  retryableErrors_opt :: "ErrorCode list option"
  onRetry_opt :: "(nat \<Rightarrow> thrown \<Rightarrow> 's \<Rightarrow> (thrown + unit) \<times> 's) option"
  onMaxRetriesReached_opt :: "(thrown \<Rightarrow> 's \<Rightarrow> (thrown + unit) \<times> 's) option"

definition DEFAULT_retryableErrors :: "ErrorCode list" where
  "DEFAULT_retryableErrors =
     [RATE_LIMIT_EXCEEDED, SERVICE_UNAVAILABLE, EXTERNAL_SERVICE_ERROR, DATABASE_ERROR]"

definition DEFAULT_RETRY_OPTIONS :: "'s RetryOptions" where
  "DEFAULT_RETRY_OPTIONS =
     \<lparr>maxRetries = 3, baseDelay = Finite 1000, maxDelay = Finite 30000,
      backoffMultiplier = Finite 2,
      retryableErrors = Some DEFAULT_retryableErrors,
      onRetry = None, onMaxRetriesReached = None\<rparr>"

text \<open>The spread \<^verbatim>\<open>{ ...DEFAULT_RETRY_OPTIONS, ...options }\<close>: a field of \<open>options\<close> wins.\<close>

definition mergeOptions :: "'s RetryOptions \<Rightarrow> 's PartialRetryOptions \<Rightarrow> 's RetryOptions" where
  "mergeOptions d options =
     \<lparr>maxRetries = (case maxRetries_opt options of None \<Rightarrow> maxRetries d | Some v \<Rightarrow> v),
      baseDelay = (case baseDelay_opt options of None \<Rightarrow> baseDelay d | Some v \<Rightarrow> v),
      maxDelay = (case maxDelay_opt options of None \<Rightarrow> maxDelay d | Some v \<Rightarrow> v),
      backoffMultiplier =
        (case backoffMultiplier_opt options of None \<Rightarrow> backoffMultiplier d | Some v \<Rightarrow> v),
      retryableErrors =
        (case retryableErrors_opt options of None \<Rightarrow> retryableErrors d | Some v \<Rightarrow> Some v),
      onRetry = (case onRetry_opt options of None \<Rightarrow> onRetry d | Some v \<Rightarrow> Some v),
      onMaxRetriesReached =
        (case onMaxRetriesReached_opt options of
           None \<Rightarrow> onMaxRetriesReached d | Some v \<Rightarrow> Some v)\<rparr>"

text \<open>
  \<^verbatim>\<open>calculateDelay\<close>. The second argument is the value that \<^verbatim>\<open>Math.random()\<close> returns in
  the call. The attempt is an integer, as the loop counter that \<^verbatim>\<open>withRetry\<close> passes, so
  the exponent \<open>attempt - 1\<close> is one; the literal
  \<^verbatim>\<open>0.1\<close> is the double next to one tenth; \<^verbatim>\<open>Math.random() * 0.1 * delay\<close> multiplies from
  the left.
\<close>

definition calculateDelay ::
  "rounding \<Rightarrow> number \<Rightarrow> int \<Rightarrow> number \<Rightarrow> number \<Rightarrow> number \<Rightarrow> number" where
  "calculateDelay fl random attempt baseDelay' maxDelay' backoffMultiplier' =
     (let delay = js_mul fl baseDelay' (Math_pow fl backoffMultiplier' (attempt - 1));
          jitter = js_mul fl (js_mul fl random (fl (1 / 10))) delay
      in Math_min (js_add fl delay jitter) maxDelay')"

text \<open>
  How a call of \<^verbatim>\<open>calculateDelay\<close> completes. The body holds no \<^verbatim>\<open>throw\<close> and no test of
  its arguments, and the operations on numbers do not raise, so the call returns the
  number computed.
\<close>

definition calculateDelay_call ::
  "rounding \<Rightarrow> number \<Rightarrow> int \<Rightarrow> number \<Rightarrow> number \<Rightarrow> number \<Rightarrow> thrown + number" where
  "calculateDelay_call fl random attempt baseDelay' maxDelay' backoffMultiplier' =
     Inr (calculateDelay fl random attempt baseDelay' maxDelay' backoffMultiplier')"

text \<open>
  \<^verbatim>\<open>isRetryableError\<close>: a structured response is retryable when its code is in the list
  (the default list when none is passed); any other value is classified.
\<close>

definition isRetryableError :: "thrown \<Rightarrow> ErrorCode list option \<Rightarrow> thrown + bool" where
  "isRetryableError err retryableErrors' =
     (if isApiErrorResponse err
      then Inr (code err \<in> set (case retryableErrors' of
                                    None \<Rightarrow> DEFAULT_retryableErrors | Some l \<Rightarrow> l))
      else map_sum id isRetryable (classifyError err))"

text \<open>Decimal digits of a number, for the template strings of the log messages.\<close>

fun string_of_nat :: "nat \<Rightarrow> string" where
  "string_of_nat n =
     (if n < 10 then [char_of (48 + n)]
      else string_of_nat (n div 10) @ [char_of (48 + n mod 10)])"

declare string_of_nat.simps [simp del]

text \<open>
  \<^verbatim>\<open>if (config.onRetry) config.onRetry(attempt, lastError)\<close> and the same for
  \<^verbatim>\<open>onMaxRetriesReached\<close>: an absent callback returns at once; a present one runs on the
  caller's state and returns or throws. Neither call is inside a \<^verbatim>\<open>try\<close>.
\<close>

definition runOnRetry ::
  "'s RetryOptions \<Rightarrow> nat \<Rightarrow> thrown \<Rightarrow> 's \<Rightarrow> (thrown + unit) \<times> 's" where
  "runOnRetry config attempt err s =
     (case onRetry config of None \<Rightarrow> (Inr (), s) | Some cb \<Rightarrow> cb attempt err s)"

definition runOnMaxRetriesReached ::
  "'s RetryOptions \<Rightarrow> thrown \<Rightarrow> 's \<Rightarrow> (thrown + unit) \<times> 's" where
  "runOnMaxRetriesReached config err s =
     (case onMaxRetriesReached config of None \<Rightarrow> (Inr (), s) | Some cb \<Rightarrow> cb err s)"

text \<open>\<^verbatim>\<open>await fn()\<close>: the operation runs on the caller's state; the invocation is counted.\<close>

definition invoke :: "('s \<Rightarrow> (thrown + 'a) \<times> 's) \<Rightarrow> 's world \<Rightarrow> (thrown + 'a) \<times> 's world" where
  "invoke fn w = (case fn (env w) of (r, s) \<Rightarrow> (r, w\<lparr>env := s, calls := calls w + 1\<rparr>))"

text \<open>
  The \<^verbatim>\<open>for\<close> loop of \<^verbatim>\<open>withRetry\<close>, from the value \<open>attempt\<close> of the counter, with the
  current value of \<^verbatim>\<open>lastError\<close>. \<open>random k\<close> is what \<^verbatim>\<open>Math.random()\<close> returns in the
  delay computation of attempt \<open>k\<close>. The result is the value returned (\<open>Inr\<close>) or raised
  (\<open>Inl\<close>) and the world the call leaves behind. Whatever is raised inside the
  \<^verbatim>\<open>catch\<close> block, by a callback or by the logger, leaves \<^verbatim>\<open>withRetry\<close>.
\<close>

function withRetry_loop ::
  "rounding \<Rightarrow> ('s \<Rightarrow> (thrown + 'a) \<times> 's) \<Rightarrow> 's RetryOptions \<Rightarrow> (nat \<Rightarrow> number) \<Rightarrow> nat
     \<Rightarrow> thrown \<Rightarrow> 's world \<Rightarrow> (thrown + 'a) \<times> 's world" where
  "withRetry_loop fl fn config random attempt lastError w =
     (if attempt \<le> maxRetries config + 1 then
        (case invoke fn w of
           (Inr result, w1) \<Rightarrow>
             (if attempt > 1
              then (case logInfo (''Function succeeded after '' @ string_of_nat (attempt - 1)
                                    @ '' retries'') Map.empty w1 of
                      Inl ex \<Rightarrow> (Inl ex, w1)
                    | Inr w2 \<Rightarrow> (Inr result, w2))
              else (Inr result, w1))
         | (Inl err, w0) \<Rightarrow>
             (let w1 = w0\<lparr>caught := caught w0 @ [err]\<rparr> in
              if attempt > maxRetries config then
                (case runOnMaxRetriesReached config err (env w1) of
                   (Inl ex, s) \<Rightarrow> (Inl ex, w1\<lparr>env := s\<rparr>)
                 | (Inr u, s) \<Rightarrow>
                     (let w2 = w1\<lparr>env := s\<rparr> in
                      case logError err
                             (Some (''Function failed after ''
                                    @ string_of_nat (maxRetries config) @ '' retries''))
                             [''totalAttempts'' \<mapsto> Num (Finite (real (attempt - 1)))] w2 of
                        Inl ex \<Rightarrow> (Inl ex, w2)
                      | Inr w3 \<Rightarrow> (Inl err, w3)))
              else
                (case isRetryableError err (retryableErrors config) of
                   Inl ex \<Rightarrow> (Inl ex, w1)
                 | Inr retryable \<Rightarrow>
                     if \<not> retryable then
                       (case logError err (Some ''Non-retryable error encountered'')
                               [''attempt'' \<mapsto> Num (Finite (real attempt))] w1 of
                          Inl ex \<Rightarrow> (Inl ex, w1)
                        | Inr w2 \<Rightarrow> (Inl err, w2))
                     else
                       (case runOnRetry config attempt err (env w1) of
                          (Inl ex, s) \<Rightarrow> (Inl ex, w1\<lparr>env := s\<rparr>)
                        | (Inr u, s) \<Rightarrow>
                            (let w2 = w1\<lparr>env := s\<rparr>;
                                 delayMs = calculateDelay fl (random attempt) (int attempt)
                                             (baseDelay config) (maxDelay config)
                                             (backoffMultiplier config)
                             in case logWarning
                                       (''Retrying after error (attempt ''
                                        @ string_of_nat attempt @ ''/''
                                        @ string_of_nat (maxRetries config) @ '')'')
                                       [''error'' \<mapsto> Err err, ''delayMs'' \<mapsto> Num delayMs,
                                        ''nextAttempt'' \<mapsto> Num (Finite (real (attempt + 1)))]
                                       w2 of
                                  Inl ex \<Rightarrow> (Inl ex, w2)
                                | Inr w3 \<Rightarrow>
                                    withRetry_loop fl fn config random (attempt + 1) err
                                      (w3\<lparr>timers := timers w3 @ [delayMs]\<rparr>))))))
      else (Inl lastError, w))"
  by pat_completeness auto
termination
  by (relation "measure (\<lambda>(fl, fn, config, random, attempt, lastError, w).
                           maxRetries config + 2 - attempt)") auto

declare withRetry_loop.simps [simp del]

text \<open>\<^verbatim>\<open>withRetry\<close>: merge the options into the defaults, then loop from attempt 1.\<close>

definition withRetry ::
  "rounding \<Rightarrow> ('s \<Rightarrow> (thrown + 'a) \<times> 's) \<Rightarrow> 's PartialRetryOptions \<Rightarrow> (nat \<Rightarrow> number)
     \<Rightarrow> 's world \<Rightarrow> (thrown + 'a) \<times> 's world" where
  "withRetry fl fn options random w =
     withRetry_loop fl fn (mergeOptions DEFAULT_RETRY_OPTIONS options) random 1 Undefined w"

text \<open>
  For the statements about sequences of attempts: the attempt counter and the caller's
  state after one attempt that failed and was retried. The operation has run on the
  state, then \<^verbatim>\<open>onRetry\<close> has run on what the operation left.
\<close>

definition retried_attempt ::
  "('s \<Rightarrow> (thrown + 'a) \<times> 's) \<Rightarrow> 's RetryOptions \<Rightarrow> nat \<times> 's \<Rightarrow> nat \<times> 's" where
  "retried_attempt fn config =
     (\<lambda>(attempt, s).
        case fn s of
          (Inl err, s') \<Rightarrow> (attempt + 1, snd (runOnRetry config attempt err s'))
        | (Inr result, s') \<Rightarrow> (attempt + 1, s'))"

section \<open>Transaction retry (packages/database/src/utils/transactions.ts)\<close>

datatype IsolationLevel = ReadUncommitted | ReadCommitted | RepeatableRead | Serializable

record TransactionOptions =
  timeout :: "nat option"
  isolationLevel :: "IsolationLevel option"

text \<open>The second argument that \<^verbatim>\<open>withTransaction\<close> passes to the client.\<close>

record TransactionArgs =
  argTimeout :: nat
  argIsolationLevel :: "IsolationLevel option"

text \<open>
  The storage client is an external library. Its method \<^verbatim>\<open>$transaction\<close> is a parameter:
  given the transaction function and the arguments it turns a state into an outcome and
  a state.
\<close>

record ('s, 'a) PrismaClient =
  transaction ::
    "('s \<Rightarrow> (thrown + 'a) \<times> 's) \<Rightarrow> TransactionArgs \<Rightarrow> 's \<Rightarrow> (thrown + 'a) \<times> 's"

text \<open>The destructuring \<^verbatim>\<open>{ timeout = 5000, isolationLevel } = options\<close>.\<close>

definition transactionArgs :: "TransactionOptions \<Rightarrow> TransactionArgs" where
  "transactionArgs options =
     \<lparr>argTimeout = (case timeout options of None \<Rightarrow> 5000 | Some t \<Rightarrow> t),
      argIsolationLevel = isolationLevel options\<rparr>"

text \<open>
  \<^verbatim>\<open>withTransaction\<close>: one call of \<^verbatim>\<open>$transaction\<close> on the caller's state; the submission is
  counted in \<open>calls\<close>.
\<close>

definition withTransaction ::
  "('s, 'a) PrismaClient \<Rightarrow> ('s \<Rightarrow> (thrown + 'a) \<times> 's) \<Rightarrow> TransactionOptions
     \<Rightarrow> 's world \<Rightarrow> (thrown + 'a) \<times> 's world" where
  "withTransaction client fn options w =
     (case transaction client fn (transactionArgs options) (env w) of
        (r, s) \<Rightarrow> (r, w\<lparr>env := s, calls := calls w + 1\<rparr>))"

text \<open>
  The test \<^verbatim>\<open>isRetryable\<close> of \<^verbatim>\<open>retryTransaction\<close>: an instance of \<^verbatim>\<open>Error\<close> whose message
  holds one of the three signatures; the message is compared as it is, in its own case.
\<close>

fun tx_isRetryable :: "thrown \<Rightarrow> bool" where
  "tx_isRetryable (JsError n m) =
     (str_includes m ''serialization_failure'' \<or> str_includes m ''deadlock_detected''
      \<or> str_includes m ''could not serialize access'')"
| "tx_isRetryable (ApiError c m) = False"
| "tx_isRetryable Undefined = False"

text \<open>
  The \<^verbatim>\<open>for\<close> loop of \<^verbatim>\<open>retryTransaction\<close>, from the value \<open>attempt\<close> of the counter, with
  the current value of \<^verbatim>\<open>lastError\<close>; when the loop ends without a \<^verbatim>\<open>return\<close> or
  \<^verbatim>\<open>throw\<close>, \<^verbatim>\<open>lastError\<close> is thrown. The delay is \<^verbatim>\<open>Math.pow(2, attempt) * 100\<close>.
\<close>

function retryTransaction_loop ::
  "rounding \<Rightarrow> ('s, 'a) PrismaClient \<Rightarrow> ('s \<Rightarrow> (thrown + 'a) \<times> 's) \<Rightarrow> nat
     \<Rightarrow> TransactionOptions \<Rightarrow> nat \<Rightarrow> thrown \<Rightarrow> 's world \<Rightarrow> (thrown + 'a) \<times> 's world" where
  "retryTransaction_loop fl client fn maxRetries' options attempt lastError w =
     (if attempt \<le> maxRetries' then
        (case withTransaction client fn options w of
           (Inr result, w1) \<Rightarrow> (Inr result, w1)
         | (Inl err, w0) \<Rightarrow>
             (let w1 = w0\<lparr>caught := caught w0 @ [err]\<rparr> in
              if \<not> tx_isRetryable err \<or> attempt = maxRetries' then (Inl err, w1)
              else
                (let delay = js_mul fl (Math_pow fl (Finite 2) (int attempt)) (Finite 100) in
                 retryTransaction_loop fl client fn maxRetries' options (attempt + 1) err
                   (w1\<lparr>timers := timers w1 @ [delay]\<rparr>))))
      else (Inl lastError, w))"
  by pat_completeness auto
termination
  by (relation "measure (\<lambda>(fl, client, fn, maxRetries', options, attempt, lastError, w).
                           maxRetries' + 1 - attempt)") auto

declare retryTransaction_loop.simps [simp del]

text \<open>
  \<^verbatim>\<open>retryTransaction\<close>: \<^verbatim>\<open>maxRetries\<close> defaults to 3 when absent; \<^verbatim>\<open>lastError\<close> starts
  unassigned, that is \<^verbatim>\<open>undefined\<close>.
\<close>

definition retryTransaction ::
  "rounding \<Rightarrow> ('s, 'a) PrismaClient \<Rightarrow> ('s \<Rightarrow> (thrown + 'a) \<times> 's) \<Rightarrow> nat option
     \<Rightarrow> TransactionOptions \<Rightarrow> 's world \<Rightarrow> (thrown + 'a) \<times> 's world" where
  "retryTransaction fl client fn maxRetries' options w =
     retryTransaction_loop fl client fn (case maxRetries' of None \<Rightarrow> 3 | Some n \<Rightarrow> n)
       options 1 Undefined w"

section \<open>Example inputs\<close>

text \<open>
  A fresh world with a production logger; the state of the caller is a counter that the
  example operations advance on every invocation.
\<close>

definition example_world :: "nat world" where
  "example_world =
     \<lparr>env = 0, errorLogger = \<lparr>loggerContext = Map.empty, isDevelopment = False\<rparr>,
      console = [], timers = [], calls = 0, caught = []\<rparr>"

text \<open>An operation that rejects with the same value on every invocation.\<close>

definition always_fails :: "thrown \<Rightarrow> nat \<Rightarrow> (thrown + unit) \<times> nat" where
  "always_fails e s = (Inl e, Suc s)"


text \<open>Options that set \<^verbatim>\<open>maxRetries\<close> and, when given, the list of retryable codes.\<close>

definition example_options :: "nat \<Rightarrow> ErrorCode list option \<Rightarrow> nat PartialRetryOptions" where
  "example_options n codes =
     \<lparr>maxRetries_opt = Some n, baseDelay_opt = None, maxDelay_opt = None,
      backoffMultiplier_opt = None, retryableErrors_opt = codes,
      onRetry_opt = None, onMaxRetriesReached_opt = None\<rparr>"

text \<open>Callbacks that throw and leave the caller's state as it is.\<close>

definition throwing_onRetry :: "nat \<Rightarrow> thrown \<Rightarrow> nat \<Rightarrow> (thrown + unit) \<times> nat" where
  "throwing_onRetry attempt err s = (Inl (JsError ''Error'' ''onRetry failed''), s)"

definition throwing_onMaxRetriesReached :: "thrown \<Rightarrow> nat \<Rightarrow> (thrown + unit) \<times> nat" where
  "throwing_onMaxRetriesReached err s = (Inl (JsError ''Error'' ''onMaxRetriesReached failed''), s)"

definition with_throwing_callbacks :: "nat PartialRetryOptions \<Rightarrow> nat PartialRetryOptions" where
  "with_throwing_callbacks options =
     options\<lparr>onRetry_opt := Some throwing_onRetry,
             onMaxRetriesReached_opt := Some throwing_onMaxRetriesReached\<rparr>"

text \<open>A client whose \<^verbatim>\<open>$transaction\<close> runs the transaction function once and hands its outcome on.\<close>

definition direct_client :: "(nat, unit) PrismaClient" where
  "direct_client = \<lparr>transaction = (\<lambda>fn args s. fn s)\<rparr>"

text \<open>A random source that always returns 0: no jitter.\<close>

definition no_jitter :: "nat \<Rightarrow> number" where
  "no_jitter k = Finite 0"

definition no_transaction_options :: TransactionOptions where
  "no_transaction_options = \<lparr>timeout = None, isolationLevel = None\<rparr>"

section \<open>Order and rounding of numbers\<close>

lemma num_le_refl: "x \<noteq> NaN \<Longrightarrow> num_le x x"
  by (cases x) simp_all

lemma num_le_trans: "num_le x y \<Longrightarrow> num_le y z \<Longrightarrow> num_le x z"
  by (cases x; cases y; cases z) simp_all

lemma num_le_total: "x \<noteq> NaN \<Longrightarrow> y \<noteq> NaN \<Longrightarrow> num_le x y \<or> num_le y x"
  by (cases x; cases y) auto

lemma num_le_between:
  "num_le (Finite a) n \<Longrightarrow> num_le n (Finite c) \<Longrightarrow> \<exists>t. n = Finite t \<and> a \<le> t \<and> t \<le> c"
  by (cases n) simp_all

lemma Math_min_upper: "Math_min x y = NaN \<or> num_le (Math_min x y) y"
  by (cases x; cases y) simp_all

lemma Math_min_mono:
  "num_le x x' \<Longrightarrow> y \<noteq> NaN \<Longrightarrow> num_le (Math_min x y) (Math_min x' y)"
  by (cases x; cases x'; cases y) auto

lemma Math_min_not_NaN: "x \<noteq> NaN \<Longrightarrow> y \<noteq> NaN \<Longrightarrow> Math_min x y \<noteq> NaN"
  by (cases x; cases y) auto

lemma ieee_rounding_exact: "ieee_rounding exact_rounding"
  by (simp add: ieee_rounding_def exact_rounding_def)

lemma ieee_rounding_double_range: "ieee_rounding double_range_rounding"
  by (auto simp: ieee_rounding_def double_range_rounding_def)

lemma rounded_between:
  assumes fl: "ieee_rounding fl" and a: "fl a = Finite a" and c: "fl c = Finite c"
    and "a \<le> x" "x \<le> c"
  shows "\<exists>t. fl x = Finite t \<and> a \<le> t \<and> t \<le> c \<and> fl t = Finite t"
proof -
  from fl assms(4,5) have "num_le (fl a) (fl x)" "num_le (fl x) (fl c)"
    by (simp_all add: ieee_rounding_def)
  then obtain t where t: "fl x = Finite t" "a \<le> t" "t \<le> c"
    using num_le_between a c by metis
  moreover from fl t(1) have "fl t = Finite t" unfolding ieee_rounding_def by blast
  ultimately show ?thesis by blast
qed

lemma Math_pow_nonneg:
  assumes fl: "ieee_rounding fl" and m: "1 \<le> m" and k: "0 \<le> k"
  shows "num_le (Finite 0) (Math_pow fl (Finite m) k)"
proof (cases "k = 0")
  case True
  then show ?thesis by simp
next
  case False
  have "0 \<le> power_int m k" using m by simp
  with fl have "num_le (fl 0) (fl (power_int m k))" unfolding ieee_rounding_def by blast
  moreover from fl have "fl 0 = Finite 0" by (simp add: ieee_rounding_def)
  ultimately show ?thesis using False m by simp
qed

lemma delay_between_product_and_cap:
  assumes fl: "ieee_rounding fl"
    and "1 \<le> attempt" "0 \<le> b" "1 \<le> m" "0 \<le> r" "r < 1" "mx \<noteq> NaN"
    and d: "js_mul fl (Finite b) (Math_pow fl (Finite m) (attempt - 1)) = Finite d"
  shows "num_le (calculateDelay fl (Finite r) attempt (Finite b) mx (Finite m)) mx
         \<and> num_le (Math_min (Finite d) mx)
                  (calculateDelay fl (Finite r) attempt (Finite b) mx (Finite m))"
proof -
  have z: "fl 0 = Finite 0" and o: "fl 1 = Finite 1" using fl by (simp_all add: ieee_rounding_def)
  have "0 \<le> attempt - 1" using assms(2) by simp
  then have "num_le (Finite 0) (Math_pow fl (Finite m) (attempt - 1))"
    by (rule Math_pow_nonneg [OF fl assms(4)])
  with d obtain y where p: "Math_pow fl (Finite m) (attempt - 1) = Finite y" and y: "0 \<le> y"
    by (cases "Math_pow fl (Finite m) (attempt - 1)") (auto split: if_splits)
  from d p have dd: "fl (b * y) = Finite d" by simp
  then have dfix: "fl d = Finite d" using fl unfolding ieee_rounding_def by blast
  have "0 \<le> b * y" using assms(3) y by simp
  with fl have "num_le (fl 0) (fl (b * y))" unfolding ieee_rounding_def by blast
  then have d0: "0 \<le> d" using z dd by simp
  obtain t where t: "fl (1 / 10) = Finite t" "0 \<le> t" "t \<le> 1"
    using rounded_between [OF fl z o, of "1 / 10"] by auto
  have "0 \<le> r * t" "r * t \<le> 1" using assms(5,6) t(2,3) by (simp_all add: mult_le_one)
  then obtain u where u: "fl (r * t) = Finite u" "0 \<le> u" "u \<le> 1"
    using rounded_between [OF fl z o, of "r * t"] by auto
  have "0 \<le> u * d" "u * d \<le> d" using u(2,3) d0 by (simp_all add: mult_left_le_one_le)
  then obtain j where j: "fl (u * d) = Finite j" "0 \<le> j" "j \<le> d"
    using rounded_between [OF fl z dfix, of "u * d"] by auto
  have "d \<le> d + j" using j(2) by simp
  with fl have "num_le (fl d) (fl (d + j))" unfolding ieee_rounding_def by blast
  then have low: "num_le (Finite d) (fl (d + j))" using dfix by simp
  have nn: "fl (d + j) \<noteq> NaN" using fl unfolding ieee_rounding_def by blast
  have eq: "calculateDelay fl (Finite r) attempt (Finite b) mx (Finite m)
            = Math_min (fl (d + j)) mx"
    by (simp add: calculateDelay_def Let_def p dd t(1) u(1) j(1) del: Math_pow.simps)
  have "num_le (Math_min (fl (d + j)) mx) mx"
    using Math_min_upper [of "fl (d + j)" mx] Math_min_not_NaN [OF nn assms(7)] by auto
  moreover have "num_le (Math_min (Finite d) mx) (Math_min (fl (d + j)) mx)"
    using low assms(7) by (rule Math_min_mono)
  ultimately show ?thesis unfolding eq by simp
qed

section \<open>The logger changes the console only\<close>

lemma outputLog_plain:
  "error en = None \<Longrightarrow> \<exists>cs. outputLog en w = Inr (w\<lparr>console := cs\<rparr>)"
  by (auto simp: outputLog_def)

lemma outputLog_defined:
  "error en = Some e \<Longrightarrow> \<exists>cs. outputLog en w = Inr (w\<lparr>console := cs\<rparr>)"
  by (cases e) (auto simp: outputLog_def)

lemma logWarning_console: "\<exists>cs. logWarning msg ctx w = Inr (w\<lparr>console := cs\<rparr>)"
  unfolding logWarning_def by (rule outputLog_plain) (simp add: plainEntry_def)

lemma logInfo_console: "\<exists>cs. logInfo msg ctx w = Inr (w\<lparr>console := cs\<rparr>)"
  unfolding logInfo_def by (rule outputLog_plain) (simp add: plainEntry_def)

lemma classifyError_defined:
  "e \<noteq> Undefined \<Longrightarrow> \<exists>c. classifyError e = Inr c"
  by (cases e) (simp_all add: classifyError_def Let_def)

lemma getDefaultMessage_defined:
  "e \<noteq> Undefined \<Longrightarrow> \<exists>m. getDefaultMessage e = Inr m"
  by (cases e) simp_all

lemma logError_console:
  assumes "e \<noteq> Undefined"
  shows "\<exists>cs. logError e msg ctx w = Inr (w\<lparr>console := cs\<rparr>)"
proof -
  from assms obtain c where c: "classifyError e = Inr c"
    using classifyError_defined by blast
  from assms obtain d where d: "getDefaultMessage e = Inr d"
    using getDefaultMessage_defined by blast
  define m where "m = (case msg of None \<Rightarrow> d | Some m' \<Rightarrow> if m' = [] then d else m')"
  have m: "(case msg of None \<Rightarrow> getDefaultMessage e
            | Some m' \<Rightarrow> if m' = [] then getDefaultMessage e else Inr m') = Inr m"
    by (simp add: m_def d split: option.split)
  define en where "en = (plainEntry (errorLogger w) (getLogLevel c) m ctx)
                          \<lparr>error := Some e, classification := Some c\<rparr>"
  have "error en = Some e" by (simp add: en_def)
  then obtain cs where cs: "outputLog en w = Inr (w\<lparr>console := cs\<rparr>)"
    using outputLog_defined by blast
  show ?thesis
    by (auto simp: logError_def c m Let_def en_def [symmetric] cs sendToMonitoringService_def)
qed

lemma logError_undefined: "logError Undefined msg ctx w = Inl (propertyReadTypeError ''message'')"
  by (simp add: logError_def classifyError_def)

lemma isRetryableError_defined:
  "isRetryableError e codes = Inr b \<Longrightarrow> e \<noteq> Undefined"
  by (auto simp: isRetryableError_def classifyError_def)


section \<open>One iteration of the retry loop\<close>

lemma invoke_failure:
  "fn (env w) = (Inl e, s) \<Longrightarrow> invoke fn w = (Inl e, w\<lparr>env := s, calls := calls w + 1\<rparr>)"
  by (simp add: invoke_def)

lemma invoke_frame:
  "invoke fn w = (r, w0) \<Longrightarrow> calls w0 = calls w + 1 \<and> caught w0 = caught w"
  by (auto simp: invoke_def split: prod.splits)

lemma isRetryableError_total:
  "e \<noteq> Undefined \<Longrightarrow> \<exists>b. isRetryableError e codes = Inr b"
proof (cases "isApiErrorResponse e")
  case True
  then show ?thesis by (simp add: isRetryableError_def)
next
  case False
  assume "e \<noteq> Undefined"
  then obtain c where "classifyError e = Inr c" using classifyError_defined by blast
  with False show ?thesis by (simp add: isRetryableError_def)
qed

lemma isRetryableError_undefined:
  "isRetryableError Undefined codes = Inl (propertyReadTypeError ''message'')"
  by (simp add: isRetryableError_def classifyError_def)

lemma withRetry_loop_exhausted:
  assumes inv: "invoke fn w = (Inl e, w0)"
    and last: "attempt = maxRetries config + 1"
    and e: "e \<noteq> Undefined"
    and cb: "runOnMaxRetriesReached config e (env w0) = (Inr u, s)"
  shows "\<exists>cs. withRetry_loop fl fn config random attempt lastError w =
           (Inl e, w0\<lparr>caught := caught w0 @ [e], env := s, console := cs\<rparr>)"
proof -
  define w2 where "w2 = w0\<lparr>caught := caught w0 @ [e], env := s\<rparr>"
  obtain f where cs: "\<And>msg ctx. logError e msg ctx w2 = Inr (w2\<lparr>console := f msg ctx\<rparr>)"
    using logError_console [OF e, of _ _ w2] by metis
  have "\<exists>cs. withRetry_loop fl fn config random attempt lastError w = (Inl e, w2\<lparr>console := cs\<rparr>)"
    by (subst withRetry_loop.simps)
       (auto simp: inv last Let_def cb w2_def [symmetric] cs)
  then show ?thesis unfolding w2_def by simp
qed

lemma withRetry_loop_exhausted_throw:
  assumes inv: "invoke fn w = (Inl e, w0)"
    and last: "attempt = maxRetries config + 1"
    and cb: "runOnMaxRetriesReached config e (env w0) = (Inl ex, s)"
  shows "withRetry_loop fl fn config random attempt lastError w =
           (Inl ex, w0\<lparr>caught := caught w0 @ [e], env := s\<rparr>)"
  by (subst withRetry_loop.simps) (simp add: inv last Let_def cb)

lemma withRetry_loop_fail_fast:
  assumes inv: "invoke fn w = (Inl e, w0)"
    and more: "attempt \<le> maxRetries config"
    and nr: "isRetryableError e (retryableErrors config) = Inr False"
  shows "\<exists>cs. withRetry_loop fl fn config random attempt lastError w =
           (Inl e, w0\<lparr>caught := caught w0 @ [e], console := cs\<rparr>)"
proof -
  define w1 where "w1 = w0\<lparr>caught := caught w0 @ [e]\<rparr>"
  have e: "e \<noteq> Undefined" using nr by (rule isRetryableError_defined)
  obtain f where cs: "\<And>msg ctx. logError e msg ctx w1 = Inr (w1\<lparr>console := f msg ctx\<rparr>)"
    using logError_console [OF e, of _ _ w1] by metis
  have "\<exists>cs. withRetry_loop fl fn config random attempt lastError w = (Inl e, w1\<lparr>console := cs\<rparr>)"
    using more
    by (subst withRetry_loop.simps) (auto simp: inv Let_def w1_def [symmetric] nr cs)
  then show ?thesis unfolding w1_def by auto
qed

lemma withRetry_loop_retry:
  assumes inv: "invoke fn w = (Inl e, w0)"
    and more: "attempt \<le> maxRetries config"
    and r: "isRetryableError e (retryableErrors config) = Inr True"
    and cb: "runOnRetry config attempt e (env w0) = (Inr u, s)"
  shows "\<exists>cs. withRetry_loop fl fn config random attempt lastError w =
           withRetry_loop fl fn config random (attempt + 1) e
             (w0\<lparr>caught := caught w0 @ [e], env := s, console := cs,
                 timers := timers w0 @
                   [calculateDelay fl (random attempt) (int attempt) (baseDelay config)
                      (maxDelay config) (backoffMultiplier config)]\<rparr>)"
proof -
  define w2 where "w2 = w0\<lparr>caught := caught w0 @ [e], env := s\<rparr>"
  define d where "d = calculateDelay fl (random attempt) (int attempt) (baseDelay config)
                        (maxDelay config) (backoffMultiplier config)"
  obtain f where cs: "\<And>msg ctx. logWarning msg ctx w2 = Inr (w2\<lparr>console := f msg ctx\<rparr>)"
    using logWarning_console [of _ _ w2] by metis
  have t: "timers w2 = timers w0" by (simp add: w2_def)
  have "\<exists>cs. withRetry_loop fl fn config random attempt lastError w =
          withRetry_loop fl fn config random (attempt + 1) e
            (w2\<lparr>console := cs, timers := timers w0 @ [d]\<rparr>)"
    using more
    by (subst withRetry_loop.simps)
       (auto simp: inv Let_def cb w2_def [symmetric] d_def [symmetric] r cs t)
  then show ?thesis unfolding w2_def d_def by simp
qed

lemma withRetry_loop_retry_throw:
  assumes inv: "invoke fn w = (Inl e, w0)"
    and more: "attempt \<le> maxRetries config"
    and r: "isRetryableError e (retryableErrors config) = Inr True"
    and cb: "runOnRetry config attempt e (env w0) = (Inl ex, s)"
  shows "withRetry_loop fl fn config random attempt lastError w =
           (Inl ex, w0\<lparr>caught := caught w0 @ [e], env := s\<rparr>)"
  using more by (subst withRetry_loop.simps) (simp add: inv Let_def cb r)

lemma withRetry_loop_success:
  assumes inv: "invoke fn w = (Inr result, w0)" and le: "attempt \<le> maxRetries config + 1"
  shows "\<exists>w'. withRetry_loop fl fn config random attempt lastError w = (Inr result, w')
           \<and> calls w' = calls w0 \<and> caught w' = caught w0"
proof -
  obtain f where cs: "\<And>msg ctx. logInfo msg ctx w0 = Inr (w0\<lparr>console := f msg ctx\<rparr>)"
    using logInfo_console [of _ _ w0] by metis
  show ?thesis using le
    by (subst withRetry_loop.simps) (simp add: inv cs)
qed

lemma withRetry_loop_undefined:
  assumes inv: "invoke fn w = (Inl Undefined, w0)" and le: "attempt \<le> maxRetries config + 1"
  shows "\<exists>ex w'. withRetry_loop fl fn config random attempt lastError w = (Inl ex, w')
           \<and> calls w' = calls w0"
  using le
  by (subst withRetry_loop.simps)
     (auto simp: inv Let_def logError_undefined isRetryableError_undefined split: prod.splits sum.splits)

section \<open>Runs of the retry loop\<close>

lemma withRetry_loop_always_retryable:
  assumes H: "\<forall>s. \<exists>e s'. fn s = (Inl e, s') \<and>
                isRetryableError e (retryableErrors config) = Inr True"
    and R: "\<forall>a e s. fst (runOnRetry config a e s) = Inr ()"
    and M: "\<forall>e s. fst (runOnMaxRetriesReached config e s) = Inr ()"
  shows "attempt \<le> maxRetries config + 1 \<Longrightarrow> k = maxRetries config + 1 - attempt \<Longrightarrow>
         \<exists>e s' w' es. withRetry_loop fl fn config random attempt lastError w = (Inl e, w')
           \<and> fn (snd ((retried_attempt fn config ^^ k) (attempt, env w))) = (Inl e, s')
           \<and> env w' = snd (runOnMaxRetriesReached config e s')
           \<and> calls w' = calls w + (k + 1)
           \<and> caught w' = caught w @ es \<and> length es = k + 1 \<and> e = last es"
proof (induction k arbitrary: attempt lastError w)
  case 0
  then have last: "attempt = maxRetries config + 1" by simp
  from H obtain e s where f: "fn (env w) = (Inl e, s)"
    and r: "isRetryableError e (retryableErrors config) = Inr True" by blast
  have e: "e \<noteq> Undefined" using r by (rule isRetryableError_defined)
  obtain s2 where cb: "runOnMaxRetriesReached config e s = (Inr (), s2)"
    using M by (metis prod.collapse)
  have inv: "invoke fn w = (Inl e, w\<lparr>env := s, calls := calls w + 1\<rparr>)"
    using f by (rule invoke_failure)
  from withRetry_loop_exhausted [OF inv last e, of "()" s2 fl random lastError] cb
  obtain w' where run: "withRetry_loop fl fn config random attempt lastError w = (Inl e, w')"
    and w': "env w' = s2" "calls w' = calls w + 1" "caught w' = caught w @ [e]"
    by auto
  have "fn (snd ((retried_attempt fn config ^^ 0) (attempt, env w))) = (Inl e, s)"
    using f by simp
  moreover have "env w' = snd (runOnMaxRetriesReached config e s)" using w'(1) cb by simp
  moreover have "calls w' = calls w + (0 + 1)" "length [e] = 0 + 1" "e = last [e]"
    using w'(2) by simp_all
  ultimately show ?case using run w'(3) by blast
next
  case (Suc k)
  then have more: "attempt \<le> maxRetries config" by simp
  from H obtain e s where f: "fn (env w) = (Inl e, s)"
    and r: "isRetryableError e (retryableErrors config) = Inr True" by blast
  obtain s2 where cb: "runOnRetry config attempt e s = (Inr (), s2)"
    using R by (metis prod.collapse)
  have inv: "invoke fn w = (Inl e, w\<lparr>env := s, calls := calls w + 1\<rparr>)"
    using f by (rule invoke_failure)
  from withRetry_loop_retry [OF inv more r, of "()" s2 fl random lastError] cb
  obtain w2 where step: "withRetry_loop fl fn config random attempt lastError w =
      withRetry_loop fl fn config random (attempt + 1) e w2"
    and e2: "env w2 = s2" and c2: "calls w2 = calls w + 1" and g2: "caught w2 = caught w @ [e]"
    by auto
  have ra: "retried_attempt fn config (attempt, env w) = (attempt + 1, env w2)"
    by (simp add: retried_attempt_def f cb e2)
  have "attempt + 1 \<le> maxRetries config + 1" "k = maxRetries config + 1 - (attempt + 1)"
    using Suc.prems by simp_all
  from Suc.IH [OF this, of e w2]
  obtain e' s' w' es where
    run: "withRetry_loop fl fn config random (attempt + 1) e w2 = (Inl e', w')"
    and fin: "fn (snd ((retried_attempt fn config ^^ k) (attempt + 1, env w2))) = (Inl e', s')"
    and en: "env w' = snd (runOnMaxRetriesReached config e' s')"
    and c: "calls w' = calls w2 + (k + 1)"
    and g: "caught w' = caught w2 @ es" and l: "length es = k + 1" and la: "e' = last es"
    by blast
  have "es \<noteq> []" using l by auto
  then have "e' = last (e # es)" using la by simp
  moreover have "caught w' = caught w @ (e # es)" using g g2 by simp
  moreover have "length (e # es) = Suc k + 1" using l by simp
  moreover have "calls w' = calls w + (Suc k + 1)" using c c2 by simp
  moreover have "fn (snd ((retried_attempt fn config ^^ Suc k) (attempt, env w))) = (Inl e', s')"
    using fin ra by (simp add: funpow_swap1)
  ultimately show ?case using step run en by metis
qed

lemma withRetry_loop_calls_lower:
  "attempt \<le> maxRetries config + 1 \<Longrightarrow>
   calls w + 1 \<le> calls (snd (withRetry_loop fl fn config random attempt lastError w))"
proof (induction "maxRetries config + 1 - attempt" arbitrary: attempt lastError w
         rule: less_induct)
  case less
  note le = less.prems
  obtain r w0 where inv: "invoke fn w = (r, w0)" by (cases "invoke fn w")
  then have c0: "calls w0 = calls w + 1" using invoke_frame by blast
  show ?case
  proof (cases r)
    case (Inr result)
    with withRetry_loop_success [OF inv [unfolded Inr] le, of fl random lastError] c0
    show ?thesis by auto
  next
    case (Inl e)
    show ?thesis
    proof (cases "e = Undefined")
      case True
      with withRetry_loop_undefined [OF inv [unfolded Inl True] le, of fl random lastError] c0
      show ?thesis by auto
    next
      case False
      show ?thesis
      proof (cases "attempt = maxRetries config + 1")
        case True
        obtain x s where cb: "runOnMaxRetriesReached config e (env w0) = (x, s)"
          by (cases "runOnMaxRetriesReached config e (env w0)")
        show ?thesis
        proof (cases x)
          case (Inl ex)
          from withRetry_loop_exhausted_throw [OF inv [unfolded \<open>r = Inl e\<close>] True cb [unfolded Inl],
                 of fl random lastError] c0
          show ?thesis by simp
        next
          case (Inr u)
          from withRetry_loop_exhausted [OF inv [unfolded \<open>r = Inl e\<close>] True False cb [unfolded Inr],
                 of fl random lastError] c0
          show ?thesis by auto
        qed
      next
        case last: False
        then have more: "attempt \<le> maxRetries config" using le by simp
        from isRetryableError_total [OF False]
        obtain b where b: "isRetryableError e (retryableErrors config) = Inr b" by blast
        show ?thesis
        proof (cases b)
          case True
          with b have rt: "isRetryableError e (retryableErrors config) = Inr True" by simp
          obtain x s where cb: "runOnRetry config attempt e (env w0) = (x, s)"
            by (cases "runOnRetry config attempt e (env w0)")
          show ?thesis
          proof (cases x)
            case (Inl ex)
            from withRetry_loop_retry_throw [OF inv [unfolded \<open>r = Inl e\<close>] more rt cb [unfolded Inl],
                   of fl random lastError] c0
            show ?thesis by simp
          next
            case (Inr u)
            from withRetry_loop_retry [OF inv [unfolded \<open>r = Inl e\<close>] more rt cb [unfolded Inr],
                   of fl random lastError]
            obtain w2 where step: "withRetry_loop fl fn config random attempt lastError w =
                withRetry_loop fl fn config random (attempt + 1) e w2"
              and c2: "calls w2 = calls w0" by auto
            have "maxRetries config + 1 - (attempt + 1) < maxRetries config + 1 - attempt"
              and "attempt + 1 \<le> maxRetries config + 1" using more by simp_all
            from less.hyps [OF this, of w2 e] show ?thesis using step c2 c0 by simp
          qed
        next
          case False
          with b have "isRetryableError e (retryableErrors config) = Inr False" by simp
          from withRetry_loop_fail_fast [OF inv [unfolded \<open>r = Inl e\<close>] more this,
                 of fl random lastError] c0
          show ?thesis by auto
        qed
      qed
    qed
  qed
qed

section \<open>Runs of the transaction retry loop\<close>

lemma withTransaction_result:
  "transaction client fn (transactionArgs options) (env w) = (r, s) \<Longrightarrow>
   withTransaction client fn options w = (r, w\<lparr>env := s, calls := calls w + 1\<rparr>)"
  by (simp add: withTransaction_def)



lemma retryTransaction_loop_always_retryable:
  assumes H: "\<forall>a s. \<exists>e s'. transaction client fn a s = (Inl e, s') \<and> tx_isRetryable e"
  shows "attempt \<le> maxRetries' \<Longrightarrow> k = maxRetries' - attempt \<Longrightarrow>
         \<exists>e w' es. retryTransaction_loop fl client fn maxRetries' options attempt lastError w
                      = (Inl e, w')
           \<and> transaction client fn (transactionArgs options)
                 (((\<lambda>s. snd (transaction client fn (transactionArgs options) s)) ^^ k) (env w))
               = (Inl e, env w')
           \<and> calls w' = calls w + (k + 1)
           \<and> caught w' = caught w @ es \<and> length es = k + 1 \<and> e = last es
           \<and> tx_isRetryable e"
proof (induction k arbitrary: attempt lastError w)
  case 0
  then have last: "attempt = maxRetries'" by simp
  from H obtain e s where
    f: "transaction client fn (transactionArgs options) (env w) = (Inl e, s)"
    and r: "tx_isRetryable e" by blast
  have "retryTransaction_loop fl client fn maxRetries' options attempt lastError w
        = (Inl e, w\<lparr>env := s, calls := calls w + 1, caught := caught w @ [e]\<rparr>)"
    by (subst retryTransaction_loop.simps)
       (simp add: withTransaction_result [OF f] last Let_def)
  then show ?case using r f by simp
next
  case (Suc k)
  then have less: "attempt < maxRetries'" by simp
  from H obtain e s where
    f: "transaction client fn (transactionArgs options) (env w) = (Inl e, s)"
    and r: "tx_isRetryable e" by blast
  define w2 where "w2 = w\<lparr>env := s, calls := calls w + 1, caught := caught w @ [e],
                          timers := timers w @
                            [js_mul fl (Math_pow fl (Finite 2) (int attempt)) (Finite 100)]\<rparr>"
  have step: "retryTransaction_loop fl client fn maxRetries' options attempt lastError w
              = retryTransaction_loop fl client fn maxRetries' options (attempt + 1) e w2"
    using less r
    by (subst retryTransaction_loop.simps)
       (simp add: withTransaction_result [OF f] Let_def w2_def)
  have e2: "env w2 = snd (transaction client fn (transactionArgs options) (env w))"
    by (simp add: w2_def f)
  have "attempt + 1 \<le> maxRetries'" "k = maxRetries' - (attempt + 1)"
    using Suc.prems by simp_all
  from Suc.IH [OF this, of e w2]
  obtain e' w' es where
    run: "retryTransaction_loop fl client fn maxRetries' options (attempt + 1) e w2 = (Inl e', w')"
    and fin: "transaction client fn (transactionArgs options)
                (((\<lambda>s. snd (transaction client fn (transactionArgs options) s)) ^^ k) (env w2))
              = (Inl e', env w')"
    and c: "calls w' = calls w2 + (k + 1)"
    and g: "caught w' = caught w2 @ es" and l: "length es = k + 1" and la: "e' = last es"
    and r': "tx_isRetryable e'"
    by blast
  have "es \<noteq> []" using l by auto
  then have "e' = last (e # es)" using la by simp
  moreover have "caught w' = caught w @ (e # es)" using g by (simp add: w2_def)
  moreover have "length (e # es) = Suc k + 1" using l by simp
  moreover have "calls w' = calls w + (Suc k + 1)" using c by (simp add: w2_def)
  moreover have "transaction client fn (transactionArgs options)
                (((\<lambda>s. snd (transaction client fn (transactionArgs options) s)) ^^ Suc k) (env w))
              = (Inl e', env w')"
    using fin by (simp only: funpow_Suc_right o_apply e2)
  ultimately show ?case using step run r' by metis
qed

section \<open>Evaluated examples\<close>

lemma network_timeout_retryable:
  "isRetryableError (JsError ''Error'' ''Network timeout'') (Some DEFAULT_retryableErrors)
     = Inr True"
  by code_simp

lemma not_found_not_retryable:
  "isRetryableError (ApiError NOT_FOUND ''no such user'') (Some DEFAULT_retryableErrors)
     = Inr False"
  by code_simp

lemma deadlock_retryable: "tx_isRetryable (JsError ''Error'' ''deadlock_detected'')"
  by code_simp

lemma type_error_classification:
  "classifyError (JsError ''TypeError'' ''x is not a function'')
     = Inr \<lparr>isOperational = False, isRetryable = False, severity = critical, category = system\<rparr>"
  by code_simp



lemma deadlock_run_delays:
  "timers (snd (retryTransaction exact_rounding direct_client
                  (always_fails (JsError ''Error'' ''deadlock_detected''))
                  (Some 2) no_transaction_options example_world)) = [Finite 200]"
  by code_simp

lemma throwing_onRetry_run_result:
  "fst (withRetry exact_rounding (always_fails (JsError ''Error'' ''Network timeout''))
          (with_throwing_callbacks (example_options 2 None)) no_jitter example_world)
     = Inl (JsError ''Error'' ''onRetry failed'')"
  by code_simp

lemma throwing_onRetry_run_invocations:
  "env (snd (withRetry exact_rounding (always_fails (JsError ''Error'' ''Network timeout''))
               (with_throwing_callbacks (example_options 2 None)) no_jitter example_world)) = 1"
  by code_simp

lemma throwing_onMaxRetriesReached_run_result:
  "fst (withRetry exact_rounding (always_fails (ApiError NOT_FOUND ''no such user''))
          (with_throwing_callbacks (example_options 0 None)) no_jitter example_world)
     = Inl (JsError ''Error'' ''onMaxRetriesReached failed'')"
  by code_simp

text \<open>
  Overflow: at attempt 1100 with multiplier 2 the power is infinite, and with base 0 the
  product, the jitter and the delay are \<^verbatim>\<open>NaN\<close>, which is not at most \<open>max\<close>.
\<close>

lemma pow_overflow_example:
  "Math_pow double_range_rounding (Finite 2) 1099 = PosInfinity"
  by (simp add: double_range_rounding_def power_int_def)

lemma calculateDelay_overflow_example:
  "calculateDelay double_range_rounding (Finite 0) 1100 (Finite 0) (Finite 30000) (Finite 2)
     = NaN"
  by (simp add: calculateDelay_def Let_def pow_overflow_example del: Math_pow.simps)

text \<open>
  An operation that rejects with \<^verbatim>\<open>undefined\<close>: \<^verbatim>\<open>withRetry\<close> hands the value to
  \<^verbatim>\<open>logError\<close>, whose classifier raises, and the caller receives the \<^verbatim>\<open>TypeError\<close>.
\<close>

lemma withRetry_rejecting_with_undefined:
  "fst (withRetry exact_rounding (always_fails Undefined) (example_options 0 None) no_jitter
          example_world)
     = Inl (propertyReadTypeError ''message'')"
  by code_simp

section \<open>Claims\<close>

subsection \<open>C1: attempt bound of withRetry\<close>

text \<open>
  Claim C1 as stated fails for a policy whose \<^verbatim>\<open>onRetry\<close> throws: the callback runs
  unguarded in the \<^verbatim>\<open>catch\<close> block, so with \<^verbatim>\<open>maxRetries = 2\<close> and an operation that always
  fails with a network timeout, \<^verbatim>\<open>withRetry\<close> fails with the exception of the callback
  after one invocation of the operation.
\<close>

theorem withRetry_throwing_onRetry_counterexample:
  "isRetryableError (JsError ''Error'' ''Network timeout'')
     (retryableErrors (mergeOptions DEFAULT_RETRY_OPTIONS
                         (with_throwing_callbacks (example_options 2 None)))) = Inr True
   \<and> maxRetries (mergeOptions DEFAULT_RETRY_OPTIONS
                   (with_throwing_callbacks (example_options 2 None))) = 2
   \<and> fst (withRetry exact_rounding (always_fails (JsError ''Error'' ''Network timeout''))
            (with_throwing_callbacks (example_options 2 None)) no_jitter example_world)
       = Inl (JsError ''Error'' ''onRetry failed'')
   \<and> env (snd (withRetry exact_rounding (always_fails (JsError ''Error'' ''Network timeout''))
                 (with_throwing_callbacks (example_options 2 None)) no_jitter example_world))
       = 1"
proof (intro conjI)
  show "isRetryableError (JsError ''Error'' ''Network timeout'')
          (retryableErrors (mergeOptions DEFAULT_RETRY_OPTIONS
                              (with_throwing_callbacks (example_options 2 None)))) = Inr True"
    by (simp add: network_timeout_retryable mergeOptions_def with_throwing_callbacks_def
          example_options_def DEFAULT_RETRY_OPTIONS_def)
  show "maxRetries (mergeOptions DEFAULT_RETRY_OPTIONS
                      (with_throwing_callbacks (example_options 2 None))) = 2"
    by (simp add: mergeOptions_def with_throwing_callbacks_def example_options_def)
qed (rule throwing_onRetry_run_result throwing_onRetry_run_invocations)+

text \<open>
  Claim C1, amended. If every invocation of the operation fails with an error that
  \<^verbatim>\<open>isRetryableError\<close> accepts under the merged policy, the policy has
  \<^verbatim>\<open>maxRetries = N\<close>, and its callbacks return whenever they are called, then
  \<^verbatim>\<open>withRetry\<close> fails with the error \<open>e\<close> that the operation returns on its invocation
  number \<open>N + 1\<close>: the invocation in the state reached from the caller's state by \<open>N\<close>
  attempts that failed and were retried. The state left to the caller is the one that
  this invocation left, after \<^verbatim>\<open>onMaxRetriesReached\<close>. The instrumentation agrees:
  \<open>N + 1\<close> invocations counted, \<open>N + 1\<close> failures caught, \<open>e\<close> the last of them.
\<close>

theorem withRetry_attempt_bound:
  assumes "\<forall>s. \<exists>e s'. fn s = (Inl e, s') \<and>
             isRetryableError e (retryableErrors (mergeOptions DEFAULT_RETRY_OPTIONS options))
               = Inr True"
    and "maxRetries (mergeOptions DEFAULT_RETRY_OPTIONS options) = N"
    and "\<forall>a e s. fst (runOnRetry (mergeOptions DEFAULT_RETRY_OPTIONS options) a e s) = Inr ()"
    and "\<forall>e s. fst (runOnMaxRetriesReached (mergeOptions DEFAULT_RETRY_OPTIONS options) e s)
                 = Inr ()"
  shows "\<exists>e s' w' es. withRetry fl fn options random w = (Inl e, w')
           \<and> fn (snd ((retried_attempt fn (mergeOptions DEFAULT_RETRY_OPTIONS options) ^^ N)
                       (1, env w))) = (Inl e, s')
           \<and> env w' = snd (runOnMaxRetriesReached
                             (mergeOptions DEFAULT_RETRY_OPTIONS options) e s')
           \<and> calls w' = calls w + (N + 1)
           \<and> caught w' = caught w @ es \<and> length es = N + 1 \<and> e = last es"
proof -
  have "1 \<le> maxRetries (mergeOptions DEFAULT_RETRY_OPTIONS options) + 1" by simp
  moreover have "N = maxRetries (mergeOptions DEFAULT_RETRY_OPTIONS options) + 1 - 1"
    using assms(2) by simp
  ultimately show ?thesis
    unfolding withRetry_def
    by (rule withRetry_loop_always_retryable [OF assms(1) assms(3) assms(4)])
qed

text \<open>
  Witness: an operation that counts its invocations in the caller's state and always
  fails with a network timeout, \<^verbatim>\<open>maxRetries = 2\<close>, no callbacks: the timeout is thrown
  and the operation's own count is 3.
\<close>

theorem withRetry_attempt_bound_witness:
  "maxRetries (mergeOptions DEFAULT_RETRY_OPTIONS (example_options 2 None)) = 2
   \<and> (\<exists>w'. withRetry exact_rounding (always_fails (JsError ''Error'' ''Network timeout''))
              (example_options 2 None) no_jitter example_world
            = (Inl (JsError ''Error'' ''Network timeout''), w')
          \<and> env w' = 3 \<and> calls w' = 3 \<and> length (caught w') = 3)"
  using withRetry_attempt_bound
          [of "always_fails (JsError ''Error'' ''Network timeout'')" "example_options 2 None" 2
              exact_rounding no_jitter example_world]
  by (auto simp: always_fails_def example_options_def mergeOptions_def DEFAULT_RETRY_OPTIONS_def
        network_timeout_retryable example_world_def runOnRetry_def runOnMaxRetriesReached_def
        retried_attempt_def eval_nat_numeral)

subsection \<open>C2: pairing of isOperational and severity\<close>

text \<open>
  Claim C2. For every input that \<^verbatim>\<open>classifyError\<close> accepts, an \<^verbatim>\<open>Error\<close> or a structured
  response, a classification is returned, and when it is not operational its severity
  is critical.
\<close>

theorem classifyError_pairing:
  "instanceofError e \<or> isApiErrorResponse e \<Longrightarrow>
     \<exists>c. classifyError e = Inr c \<and> (\<not> isOperational c \<longrightarrow> severity c = critical)"
proof (cases e)
  case (JsError n m)
  then show ?thesis by (simp add: classifyError_def Let_def)
next
  case (ApiError c m)
  then show ?thesis by (cases c) (simp_all add: classifyError_def)
next
  case Undefined
  assume "instanceofError e \<or> isApiErrorResponse e"
  with Undefined show ?thesis by simp
qed

text \<open>Witness: a \<^verbatim>\<open>TypeError\<close> is not operational and critical.\<close>

theorem classifyError_pairing_witness:
  "instanceofError (JsError ''TypeError'' ''x is not a function'')
   \<and> (\<exists>c. classifyError (JsError ''TypeError'' ''x is not a function'') = Inr c
          \<and> \<not> isOperational c \<and> severity c = critical)"
  using classifyError_pairing [of "JsError ''TypeError'' ''x is not a function''"]
  by (simp add: type_error_classification)

subsection \<open>C3: fast failure of withRetry\<close>

text \<open>
  Claim C3 as stated fails for \<^verbatim>\<open>maxRetries = 0\<close> and an \<^verbatim>\<open>onMaxRetriesReached\<close> that
  throws: the callback runs before \<^verbatim>\<open>throw lastError\<close>, and \<^verbatim>\<open>withRetry\<close> fails with
  the exception of the callback, not with the \<^verbatim>\<open>NOT_FOUND\<close> response of the operation.
\<close>

theorem withRetry_throwing_onMaxRetriesReached_counterexample:
  "isRetryableError (ApiError NOT_FOUND ''no such user'')
     (retryableErrors (mergeOptions DEFAULT_RETRY_OPTIONS
                         (with_throwing_callbacks (example_options 0 None)))) = Inr False
   \<and> fst (withRetry exact_rounding (always_fails (ApiError NOT_FOUND ''no such user''))
            (with_throwing_callbacks (example_options 0 None)) no_jitter example_world)
       = Inl (JsError ''Error'' ''onMaxRetriesReached failed'')
   \<and> JsError ''Error'' ''onMaxRetriesReached failed'' \<noteq> ApiError NOT_FOUND ''no such user''"
proof (intro conjI)
  show "isRetryableError (ApiError NOT_FOUND ''no such user'')
          (retryableErrors (mergeOptions DEFAULT_RETRY_OPTIONS
                              (with_throwing_callbacks (example_options 0 None)))) = Inr False"
    by (simp add: not_found_not_retryable mergeOptions_def with_throwing_callbacks_def
          example_options_def DEFAULT_RETRY_OPTIONS_def)
  show "JsError ''Error'' ''onMaxRetriesReached failed'' \<noteq> ApiError NOT_FOUND ''no such user''"
    by simp
qed (rule throwing_onMaxRetriesReached_run_result)

text \<open>
  Claim C3, amended. If the operation fails with an error that \<^verbatim>\<open>isRetryableError\<close>
  rejects under the merged policy, \<^verbatim>\<open>withRetry\<close> invokes the operation exactly once,
  whatever \<^verbatim>\<open>maxRetries\<close> is: the state left to the caller is the one that this single
  invocation left (after \<^verbatim>\<open>onMaxRetriesReached\<close> when \<^verbatim>\<open>maxRetries = 0\<close>), one invocation
  is counted and one failure caught. \<^verbatim>\<open>withRetry\<close> fails with that error when
  \<^verbatim>\<open>maxRetries\<close> is not 0 or \<^verbatim>\<open>onMaxRetriesReached\<close> returns.
\<close>

theorem withRetry_fast_fail:
  assumes "fn (env w) = (Inl e, s)"
    and "isRetryableError e (retryableErrors (mergeOptions DEFAULT_RETRY_OPTIONS options))
           = Inr False"
  shows "\<exists>r w'. withRetry fl fn options random w = (r, w')
           \<and> calls w' = calls w + 1 \<and> caught w' = caught w @ [e]
           \<and> env w' = (if maxRetries (mergeOptions DEFAULT_RETRY_OPTIONS options) = 0
                       then snd (runOnMaxRetriesReached
                                   (mergeOptions DEFAULT_RETRY_OPTIONS options) e s)
                       else s)
           \<and> (maxRetries (mergeOptions DEFAULT_RETRY_OPTIONS options) \<noteq> 0
               \<or> fst (runOnMaxRetriesReached
                         (mergeOptions DEFAULT_RETRY_OPTIONS options) e s) = Inr ()
              \<longrightarrow> r = Inl e)"
proof -
  define config where "config = mergeOptions DEFAULT_RETRY_OPTIONS options"
  have inv: "invoke fn w = (Inl e, w\<lparr>env := s, calls := calls w + 1\<rparr>)"
    using assms(1) by (rule invoke_failure)
  have e: "e \<noteq> Undefined" using assms(2) by (rule isRetryableError_defined)
  show ?thesis
  proof (cases "maxRetries config = 0")
    case True
    then have last: "(1::nat) = maxRetries config + 1" by simp
    obtain x s2 where cb: "runOnMaxRetriesReached config e s = (x, s2)"
      by (cases "runOnMaxRetriesReached config e s")
    show ?thesis
    proof (cases x)
      case (Inl ex)
      from withRetry_loop_exhausted_throw [OF inv last, of ex s2 fl random Undefined] cb Inl
      show ?thesis using True unfolding withRetry_def config_def [symmetric] by simp
    next
      case (Inr u)
      from withRetry_loop_exhausted [OF inv last e, of u s2 fl random Undefined] cb Inr
      show ?thesis using True unfolding withRetry_def config_def [symmetric] by auto
    qed
  next
    case False
    then have "1 \<le> maxRetries config" by simp
    from withRetry_loop_fail_fast [OF inv this assms(2) [folded config_def], of fl random Undefined]
    show ?thesis using False unfolding withRetry_def config_def [symmetric] by auto
  qed
qed

text \<open>
  Witness: a \<^verbatim>\<open>NOT_FOUND\<close> response with five retries allowed: the response is thrown and
  the operation's own count is 1.
\<close>

theorem withRetry_fast_fail_witness:
  "maxRetries (mergeOptions DEFAULT_RETRY_OPTIONS (example_options 5 None)) \<noteq> 0
   \<and> (\<exists>w'. withRetry exact_rounding (always_fails (ApiError NOT_FOUND ''no such user''))
                (example_options 5 None) no_jitter example_world
           = (Inl (ApiError NOT_FOUND ''no such user''), w')
     \<and> env w' = 1 \<and> calls w' = 1 \<and> caught w' = [ApiError NOT_FOUND ''no such user''])"
  using withRetry_fast_fail
          [of "always_fails (ApiError NOT_FOUND ''no such user'')" example_world
              "ApiError NOT_FOUND ''no such user''" 1 "example_options 5 None"
              exact_rounding no_jitter]
  by (auto simp: always_fails_def example_options_def mergeOptions_def DEFAULT_RETRY_OPTIONS_def
        not_found_not_retryable example_world_def)

subsection \<open>C4: bounds of calculateDelay\<close>

text \<open>
  Claim C4 as stated fails: the result is capped by \<^verbatim>\<open>maxDelay\<close>, so it falls below
  \<open>base * multiplier ^ (attempt - 1)\<close> as soon as that product exceeds the cap. With base
  1000, multiplier 2 and cap 30000 the tenth attempt has the product 512000 and the
  delay 30000. Every value of this computation is an integer, so no rounding occurs.
\<close>

theorem calculateDelay_cap_counterexample:
  "(1::int) \<le> 10 \<and> (0::real) \<le> 1000 \<and> (1::real) \<le> 2 \<and> (0::real) \<le> 0 \<and> (0::real) < 1
   \<and> calculateDelay exact_rounding (Finite 0) 10 (Finite 1000) (Finite 30000) (Finite 2)
       = Finite 30000
   \<and> 1000 * power_int 2 (10 - 1) = (512000::real)
   \<and> \<not> num_le (Finite (1000 * power_int 2 (10 - 1)))
              (calculateDelay exact_rounding (Finite 0) 10 (Finite 1000) (Finite 30000)
                 (Finite 2))"
  by (simp add: calculateDelay_def exact_rounding_def power_int_def)

text \<open>
  Claim C4, amended. Let \<open>attempt \<ge> 1\<close>, let base, multiplier and the random value be
  finite with \<open>base \<ge> 0\<close>, \<open>multiplier \<ge> 1\<close> and the random value in \<open>[0, 1)\<close>, and let
  \<open>max\<close> be a number other than \<^verbatim>\<open>NaN\<close>. If the product
  \<^verbatim>\<open>baseDelay * Math.pow(backoffMultiplier, attempt - 1)\<close>, as the code computes it, is a
  finite number \<open>d\<close>, then the delay is at most \<open>max\<close> and at least the smaller of \<open>d\<close>
  and \<open>max\<close>. This holds for every rounding with the properties of round-to-nearest.
\<close>

theorem calculateDelay_bounds:
  assumes "ieee_rounding fl"
    and "1 \<le> attempt" "0 \<le> b" "1 \<le> m" "0 \<le> r" "r < 1" "mx \<noteq> NaN"
    and "js_mul fl (Finite b) (Math_pow fl (Finite m) (attempt - 1)) = Finite d"
  shows "num_le (calculateDelay fl (Finite r) attempt (Finite b) mx (Finite m)) mx
         \<and> num_le (Math_min (Finite d) mx)
                  (calculateDelay fl (Finite r) attempt (Finite b) mx (Finite m))"
  using assms by (rule delay_between_product_and_cap)

text \<open>
  Witness: third attempt, base 1000, multiplier 2, cap 30000, in arithmetic without
  rounding: the computed product is 4000.
\<close>

theorem calculateDelay_bounds_witness:
  "ieee_rounding exact_rounding
   \<and> (1::int) \<le> 3 \<and> (0::real) \<le> 1000 \<and> (1::real) \<le> 2 \<and> (0::real) \<le> 1 / 2
   \<and> (1 / 2 :: real) < 1 \<and> Finite 30000 \<noteq> NaN
   \<and> js_mul exact_rounding (Finite 1000) (Math_pow exact_rounding (Finite 2) (3 - 1))
       = Finite 4000
   \<and> num_le (calculateDelay exact_rounding (Finite (1 / 2)) 3 (Finite 1000) (Finite 30000)
                (Finite 2)) (Finite 30000)
   \<and> num_le (Math_min (Finite 4000) (Finite 30000))
             (calculateDelay exact_rounding (Finite (1 / 2)) 3 (Finite 1000) (Finite 30000)
                (Finite 2))"
  using calculateDelay_bounds [of exact_rounding 3 1000 2 "1 / 2" "Finite 30000" 4000]
        ieee_rounding_exact
  by (simp add: exact_rounding_def power_int_def)

subsection \<open>C5: signatures that retryTransaction retries\<close>



subsection \<open>C6: exhaustion of retryTransaction\<close>

text \<open>
  Claim C6. If every submission of the transaction fails with a retryable signature and
  \<^verbatim>\<open>maxRetries = N \<ge> 1\<close>, then \<^verbatim>\<open>retryTransaction\<close> fails with the error \<open>e\<close> that the
  client returns on submission number \<open>N\<close>: the submission in the state reached from the
  caller's state by \<open>N - 1\<close> submissions. The state left to the caller is the one that
  this submission left. The instrumentation agrees: \<open>N\<close> submissions counted, \<open>N\<close>
  failures caught, \<open>e\<close> the last of them.
\<close>

theorem retryTransaction_exhaustion:
  assumes "\<forall>a s. \<exists>e s'. transaction client fn a s = (Inl e, s') \<and> tx_isRetryable e"
    and "1 \<le> N"
  shows "\<exists>e w' es. retryTransaction fl client fn (Some N) options w = (Inl e, w')
           \<and> transaction client fn (transactionArgs options)
                 (((\<lambda>s. snd (transaction client fn (transactionArgs options) s)) ^^ (N - 1))
                    (env w))
               = (Inl e, env w')
           \<and> calls w' = calls w + N
           \<and> caught w' = caught w @ es \<and> length es = N \<and> e = last es \<and> tx_isRetryable e"
proof -
  have "N - 1 = N - 1" "N - 1 + 1 = N" using assms(2) by simp_all
  with retryTransaction_loop_always_retryable
         [OF assms(1) assms(2), of "N - 1" fl options Undefined w]
  show ?thesis by (simp add: retryTransaction_def)
qed

text \<open>
  Witness (scenario C): the operation always throws \<^verbatim>\<open>Error("deadlock_detected")\<close> and
  counts its invocations, \<^verbatim>\<open>maxRetries = 2\<close>: the deadlock error propagates and the
  operation's own count is 2.
\<close>

theorem retryTransaction_exhaustion_witness:
  "(1::nat) \<le> 2
   \<and> (\<exists>w'. retryTransaction exact_rounding direct_client
                (always_fails (JsError ''Error'' ''deadlock_detected''))
                (Some 2) no_transaction_options example_world
              = (Inl (JsError ''Error'' ''deadlock_detected''), w')
         \<and> env w' = 2 \<and> calls w' = 2)"
  using retryTransaction_exhaustion
          [of direct_client "always_fails (JsError ''Error'' ''deadlock_detected'')" 2
              exact_rounding no_transaction_options example_world]
  by (auto simp: direct_client_def always_fails_def deadlock_retryable example_world_def)

subsection \<open>C7: what decides retryability of a structured error\<close>

text \<open>
  Claim C7 as stated fails: for a structured response the classifier is not consulted.
  \<^verbatim>\<open>RATE_LIMIT_EXCEEDED\<close> is retryable for the classifier, yet under a policy whose list
  holds \<^verbatim>\<open>NOT_FOUND\<close> only, with three retries left, the error is thrown and the
  operation's own count is 1.
\<close>

theorem withRetry_classifier_not_consulted_counterexample:
  "isRetryable (classifyApiErrorResponse RATE_LIMIT_EXCEEDED)
   \<and> maxRetries (mergeOptions DEFAULT_RETRY_OPTIONS (example_options 3 (Some [NOT_FOUND]))) = 3
   \<and> fst (withRetry exact_rounding (always_fails (ApiError RATE_LIMIT_EXCEEDED ''slow down''))
            (example_options 3 (Some [NOT_FOUND])) no_jitter example_world)
       = Inl (ApiError RATE_LIMIT_EXCEEDED ''slow down'')
   \<and> env (snd (withRetry exact_rounding
                 (always_fails (ApiError RATE_LIMIT_EXCEEDED ''slow down''))
                 (example_options 3 (Some [NOT_FOUND])) no_jitter example_world)) = 1"
proof -
  define config :: "nat RetryOptions"
    where "config = mergeOptions DEFAULT_RETRY_OPTIONS (example_options 3 (Some [NOT_FOUND]))"
  have m: "maxRetries config = 3" and c: "retryableErrors config = Some [NOT_FOUND]"
    by (simp_all add: config_def mergeOptions_def example_options_def)
  have inv: "invoke (always_fails (ApiError RATE_LIMIT_EXCEEDED ''slow down'')) example_world
             = (Inl (ApiError RATE_LIMIT_EXCEEDED ''slow down''),
                example_world\<lparr>env := 1, calls := 1\<rparr>)"
    by (simp add: invoke_def always_fails_def example_world_def)
  have nr: "isRetryableError (ApiError RATE_LIMIT_EXCEEDED ''slow down'') (retryableErrors config)
            = Inr False"
    by (simp add: isRetryableError_def c)
  have "1 \<le> maxRetries config" using m by simp
  from withRetry_loop_fail_fast [OF inv this nr, of exact_rounding no_jitter Undefined]
  show ?thesis using m by (auto simp: withRetry_def config_def [symmetric])
qed

text \<open>
  Claim C7, amended. When an attempt fails with a structured response, attempts remain
  and \<^verbatim>\<open>onRetry\<close> returns, the operation is invoked again if and only if the code of the
  response is in the list of retryable codes of the configuration. If the code is not
  in the list, the response is thrown and the caller's state is the one that this
  invocation left. If it is, the run goes on with the next attempt, in the state that
  \<^verbatim>\<open>onRetry\<close> left. \<^verbatim>\<open>withRetry\<close> is this loop from attempt 1 under the merged
  configuration.
\<close>

theorem withRetry_structured_retry_by_codes:
  assumes f: "fn (env w) = (Inl (ApiError c m), s)"
    and more: "attempt \<le> maxRetries config"
    and cb: "fst (runOnRetry config attempt (ApiError c m) s) = Inr ()"
  shows "(calls w + 2 \<le> calls (snd (withRetry_loop fl fn config random attempt lastError w)))
           = (c \<in> set (case retryableErrors config of
                          None \<Rightarrow> DEFAULT_retryableErrors | Some l \<Rightarrow> l))
         \<and> (c \<notin> set (case retryableErrors config of
                        None \<Rightarrow> DEFAULT_retryableErrors | Some l \<Rightarrow> l)
            \<longrightarrow> fst (withRetry_loop fl fn config random attempt lastError w)
                  = Inl (ApiError c m)
                \<and> env (snd (withRetry_loop fl fn config random attempt lastError w)) = s)
         \<and> (c \<in> set (case retryableErrors config of
                        None \<Rightarrow> DEFAULT_retryableErrors | Some l \<Rightarrow> l)
            \<longrightarrow> (\<exists>w2. withRetry_loop fl fn config random attempt lastError w
                         = withRetry_loop fl fn config random (attempt + 1) (ApiError c m) w2
                       \<and> env w2 = snd (runOnRetry config attempt (ApiError c m) s)
                       \<and> calls w2 = calls w + 1))"
proof -
  have inv: "invoke fn w = (Inl (ApiError c m), w\<lparr>env := s, calls := calls w + 1\<rparr>)"
    using f by (rule invoke_failure)
  show ?thesis
  proof (cases "c \<in> set (case retryableErrors config of
                        None \<Rightarrow> DEFAULT_retryableErrors | Some l \<Rightarrow> l)")
    case True
    then have r: "isRetryableError (ApiError c m) (retryableErrors config) = Inr True"
      by (simp add: isRetryableError_def)
    obtain s2 where cb2: "runOnRetry config attempt (ApiError c m) s = (Inr (), s2)"
      using cb by (metis prod.collapse)
    from withRetry_loop_retry [OF inv more r, of "()" s2 fl random lastError] cb2
    obtain w2 where step: "withRetry_loop fl fn config random attempt lastError w =
        withRetry_loop fl fn config random (attempt + 1) (ApiError c m) w2"
      and e2: "env w2 = s2" and c2: "calls w2 = calls w + 1" by auto
    have "attempt + 1 \<le> maxRetries config + 1" using more by simp
    then have "calls w2 + 1
                 \<le> calls (snd (withRetry_loop fl fn config random (attempt + 1) (ApiError c m) w2))"
      by (rule withRetry_loop_calls_lower)
    then have "calls w + 2 \<le> calls (snd (withRetry_loop fl fn config random attempt lastError w))"
      using step c2 by simp
    moreover have "\<exists>w2. withRetry_loop fl fn config random attempt lastError w
                         = withRetry_loop fl fn config random (attempt + 1) (ApiError c m) w2
                       \<and> env w2 = snd (runOnRetry config attempt (ApiError c m) s)
                       \<and> calls w2 = calls w + 1"
      using step e2 c2 cb2 by auto
    ultimately show ?thesis using True by simp
  next
    case False
    then have r: "isRetryableError (ApiError c m) (retryableErrors config) = Inr False"
      by (simp add: isRetryableError_def)
    from withRetry_loop_fail_fast [OF inv more r, of fl random lastError]
    show ?thesis using False by auto
  qed
qed

text \<open>
  Witness: \<^verbatim>\<open>NOT_FOUND\<close>, which the classifier marks as not retryable, is retried under a
  policy that lists it.
\<close>

theorem withRetry_structured_retry_by_codes_witness:
  "always_fails (ApiError NOT_FOUND ''no such user'') (env example_world)
     = (Inl (ApiError NOT_FOUND ''no such user''), 1)
   \<and> (1::nat) \<le> maxRetries (mergeOptions DEFAULT_RETRY_OPTIONS
                              (example_options 3 (Some [NOT_FOUND])))
   \<and> \<not> isRetryable (classifyApiErrorResponse NOT_FOUND)
   \<and> calls example_world + 2
       \<le> calls (snd (withRetry exact_rounding
                       (always_fails (ApiError NOT_FOUND ''no such user''))
                       (example_options 3 (Some [NOT_FOUND])) no_jitter example_world))"
  using withRetry_structured_retry_by_codes
          [of "always_fails (ApiError NOT_FOUND ''no such user'')" example_world
              NOT_FOUND "''no such user''" 1 1
              "mergeOptions DEFAULT_RETRY_OPTIONS (example_options 3 (Some [NOT_FOUND]))"
              exact_rounding no_jitter Undefined]
  by (simp add: always_fails_def example_options_def mergeOptions_def DEFAULT_RETRY_OPTIONS_def
        example_world_def withRetry_def runOnRetry_def)

subsection \<open>C8: failure of the delay computation\<close>

text \<open>
  Claim C8 as stated fails: with a negative base, and with a multiplier below one, the
  call returns a number. Both computations are exact in doubles.
\<close>

theorem calculateDelay_no_validation_counterexample:
  "(-1000::real) < 0
   \<and> calculateDelay_call exact_rounding (Finite 0) 1 (Finite (-1000)) (Finite 30000) (Finite 2)
       = Inr (Finite (-1000))
   \<and> (1 / 2 :: real) < 1
   \<and> calculateDelay_call exact_rounding (Finite 0) 2 (Finite 1000) (Finite 30000)
         (Finite (1 / 2)) = Inr (Finite 500)"
  by (simp add: calculateDelay_call_def calculateDelay_def exact_rounding_def power_int_def)

text \<open>
  Claim C8, amended. The delay computation never signals an error: for all arguments it
  returns a number, and this number is \<^verbatim>\<open>NaN\<close> or at most \<open>max\<close>.
\<close>

theorem calculateDelay_call_returns:
  "\<exists>d. calculateDelay_call fl random attempt b mx m = Inr d \<and> (d = NaN \<or> num_le d mx)"
  using Math_min_upper by (simp add: calculateDelay_call_def calculateDelay_def Let_def)

subsection \<open>C9: exceptions leaving logError\<close>

text \<open>
  Claim C9 as stated fails: \<^verbatim>\<open>logError\<close> catches nothing. Called with \<^verbatim>\<open>undefined\<close>, the
  value \<^verbatim>\<open>withRetry\<close> passes on when the operation rejects with it, the classifier raises
  a \<^verbatim>\<open>TypeError\<close> and the caller of \<^verbatim>\<open>logError\<close> receives it.
\<close>

theorem logError_undefined_counterexample:
  "logError Undefined (Some ''Function failed after 0 retries'')
     [''totalAttempts'' \<mapsto> Num (Finite 0)] example_world
     = Inl (propertyReadTypeError ''message'')"
  by (simp add: logError_def classifyError_def)

text \<open>
  Claim C9, amended. For every \<^verbatim>\<open>Error\<close> and every structured response, with any message
  and any context, \<^verbatim>\<open>logError\<close> returns to its caller, and only the console has changed.
\<close>

theorem logError_returns_on_errors:
  "instanceofError e \<or> isApiErrorResponse e \<Longrightarrow>
     \<exists>cs. logError e msg ctx w = Inr (w\<lparr>console := cs\<rparr>)"
  by (rule logError_console) auto

text \<open>Witness: an \<^verbatim>\<open>Error\<close> without message argument or context.\<close>

theorem logError_returns_on_errors_witness:
  "instanceofError (JsError ''Error'' ''boom'')
   \<and> (\<exists>cs. logError (JsError ''Error'' ''boom'') None Map.empty example_world
              = Inr (example_world\<lparr>console := cs\<rparr>))"
  using logError_returns_on_errors [of "JsError ''Error'' ''boom''" None Map.empty example_world]
  by simp

subsection \<open>C10: retryTransaction with no attempt allowed\<close>

text \<open>
  Claim C10. With \<^verbatim>\<open>maxRetries = 0\<close> the loop body never runs: the world is unchanged, so
  the operation has not been invoked, and the call throws the unassigned \<^verbatim>\<open>lastError\<close>,
  that is \<^verbatim>\<open>undefined\<close>.
\<close>

theorem retryTransaction_zero_retries:
  "retryTransaction fl client fn (Some 0) options w = (Inl Undefined, w)
   \<and> calls (snd (retryTransaction fl client fn (Some 0) options w)) = calls w"
  by (simp add: retryTransaction_def retryTransaction_loop.simps)

end
